theory Spec2Isabelle
  imports Main
begin

section \<open>Python primitives used by the pipeline\<close>

text \<open>
  Strings are lists of characters; one list element stands for one character of a Python
  \<^verbatim>\<open>str\<close>, so \<open>length\<close> is Python's \<^verbatim>\<open>len\<close>.
  Python integers are unbounded and are modelled by \<open>int\<close>.
\<close>

text \<open>
  \<^verbatim>\<open>xs[i:j]\<close>: a negative index counts from the end, both indices are clamped to
  \<open>0..len(xs)\<close>, and the slice is empty when the upper index is not above the lower one.
\<close>

definition py_slice :: "'a list \<Rightarrow> int \<Rightarrow> int \<Rightarrow> 'a list" where
  "py_slice xs i j =
     (let n = int (length xs);
          lo = (if i < 0 then max 0 (n + i) else min n i);
          hi = (if j < 0 then max 0 (n + j) else min n j)
      in take (nat (hi - lo)) (drop (nat lo) xs))"

text \<open>\<^verbatim>\<open>str(n)\<close> for an integer, as an f-string renders it: decimal digits, a minus sign first
  when negative.\<close>

definition digit_char :: "nat \<Rightarrow> char" where
  "digit_char d = char_of (48 + d)"

fun str_nat :: "nat \<Rightarrow> string" where
  "str_nat n = (if n < 10 then [digit_char n] else str_nat (n div 10) @ [digit_char (n mod 10)])"

declare str_nat.simps [simp del]

definition py_str :: "int \<Rightarrow> string" where
  "py_str i = (if i < 0 then CHR ''-'' # str_nat (nat (- i)) else str_nat (nat i))"

text \<open>
  \<^verbatim>\<open>str.isspace\<close> and the regular expression class \<^verbatim>\<open>\s\<close> on the code points below 256:
  tab, line feed, vertical tab, form feed, carriage return, the separators 28 to 31, space,
  next line (133) and no-break space (160).
\<close>

definition py_isspace :: "char \<Rightarrow> bool" where
  "py_isspace c = (of_char c \<in> {9, 10, 11, 12, 13, 28, 29, 30, 31, 32, 133, 160 :: nat})"

text \<open>\<^verbatim>\<open>s.strip()\<close>: whitespace removed at both ends.\<close>

definition py_strip :: "string \<Rightarrow> string" where
  "py_strip s = rev (dropWhile py_isspace (rev (dropWhile py_isspace s)))"

text \<open>\<^verbatim>\<open>s.lower()\<close> on the letters \<open>A\<close> to \<open>Z\<close>; every other character is kept.\<close>

definition lower_char :: "char \<Rightarrow> char" where
  "lower_char c = (if 65 \<le> (of_char c :: nat) \<and> (of_char c :: nat) \<le> 90 then char_of ((of_char c :: nat) + 32) else c)"

definition py_lower :: "string \<Rightarrow> string" where
  "py_lower s = map lower_char s"

text \<open>
  The exceptions of the modelled code: those Python raises itself, and \<open>LibraryError\<close> for
  any other exception that comes out of a library call. \<open>StoreCorrupted\<close> is the error kind
  the specification names for a marker without its payload; it is listed so that statements
  can mention it, and no function below returns it.
\<close>

datatype exn =
    FileNotFoundError
  | TypeError
  | RuntimeError string
  | LibraryError string
  | StoreCorrupted

section \<open>Chunker (utils/chunking.py)\<close>

text \<open>
  The \<^verbatim>\<open>while start < n\<close> loop of \<^verbatim>\<open>_chunk_text\<close>. The state is the start offset and the
  list of chunks appended so far. \<open>step\<close> is computed by the source once, before the loop,
  from \<open>sz\<close> (the source's \<^verbatim>\<open>size\<close>) and \<open>overlap\<close>, which the loop never changes; here it is recomputed from
  them in every iteration. The \<^verbatim>\<open>break\<close> is the branch that returns the chunks.
\<close>

function chunk_loop :: "string \<Rightarrow> int \<Rightarrow> int \<Rightarrow> int \<Rightarrow> string list \<Rightarrow> string list" where
  "chunk_loop txt sz overlap start chunks =
     (let n = int (length txt); step = max 1 (sz - overlap) in
      if start < n then
        (let stop = min n (start + sz);
             chunks' = chunks @ [py_slice txt start stop]
         in if stop \<ge> n then chunks' else chunk_loop txt sz overlap (start + step) chunks')
      else chunks)"
  by pat_completeness auto
termination
  by (relation "measure (\<lambda>(txt, sz, overlap, start, chunks). nat (int (length txt) - start))") auto

declare chunk_loop.simps [simp del]

definition chunk_text :: "string \<Rightarrow> int \<Rightarrow> int \<Rightarrow> string list" where
  "chunk_text txt sz overlap = (if txt = [] then [] else chunk_loop txt sz overlap 0 [])"

text \<open>A page as the extractor produces it: \<^verbatim>\<open>{"page": int, "text": str, "source": str}\<close>.\<close>

record page =
  pg_page :: int
  pg_text :: string
  pg_source :: string

text \<open>A \<^verbatim>\<open>Document\<close>: its content and the metadata dictionary \<^verbatim>\<open>build_documents\<close> gives it.\<close>

record doc_metadata =
  md_page :: int
  md_source :: string
  chunk_id :: string

record document =
  page_content :: string
  metadata :: doc_metadata

text \<open>The f-string \<^verbatim>\<open>f"{source}-p{page_no}-c{idx}"\<close>.\<close>

definition format_chunk_id :: "string \<Rightarrow> int \<Rightarrow> nat \<Rightarrow> string" where
  "format_chunk_id src page_no idx = src @ ''-p'' @ py_str page_no @ ''-c'' @ py_str (int idx)"

text \<open>The body of the inner loop of \<^verbatim>\<open>build_documents\<close>: the document built for chunk \<open>ch\<close>
  at position \<open>idx\<close> of page \<open>p\<close>.\<close>

definition chunk_document :: "page \<Rightarrow> nat \<times> string \<Rightarrow> document" where
  "chunk_document p ic =
     \<lparr>page_content = snd ic,
      metadata = \<lparr>md_page = pg_page p, md_source = pg_source p,
                  chunk_id = format_chunk_id (pg_source p) (pg_page p) (fst ic)\<rparr>\<rparr>"

text \<open>The inner loop: \<^verbatim>\<open>for idx, ch in enumerate(_chunk_text(text, chunk_size, overlap))\<close>,
  appending one document per chunk.\<close>

definition page_documents :: "page \<Rightarrow> int \<Rightarrow> int \<Rightarrow> document list" where
  "page_documents p chunk_size overlap =
     map (chunk_document p) (enumerate 0 (chunk_text (pg_text p) chunk_size overlap))"

text \<open>The outer loop over the pages, appending to \<open>docs\<close>.\<close>

definition build_documents :: "page list \<Rightarrow> int \<Rightarrow> int \<Rightarrow> document list" where
  "build_documents pages chunk_size overlap =
     foldl (\<lambda>docs p. docs @ page_documents p chunk_size overlap) [] pages"

section \<open>Page extractor (utils/pdf_processor.py)\<close>

text \<open>
  \<^verbatim>\<open>re.sub(r"\s+", " ", text)\<close>: every maximal run of whitespace becomes one space.
\<close>

function collapse_ws :: "string \<Rightarrow> string" where
  "collapse_ws [] = []"
| "collapse_ws (c # cs) =
     (if py_isspace c then CHR '' '' # collapse_ws (dropWhile py_isspace cs)
      else c # collapse_ws cs)"
  by pat_completeness auto
termination
  by (relation "measure length") (auto simp: length_dropWhile_le le_imp_less_Suc)

definition clean_text :: "string \<Rightarrow> string" where
  "clean_text s = (if s = [] then [] else py_strip (collapse_ws s))"

text \<open>\<^verbatim>\<open>file_path.split("/")[-1]\<close>: what follows the last slash, the whole path when it has none.\<close>

definition path_basename :: "string \<Rightarrow> string" where
  "path_basename file_path = rev (takeWhile (\<lambda>c. c \<noteq> CHR ''/'') (rev file_path))"

text \<open>
  The two libraries are outside the repository. What they do with a file is a parameter: a
  call of \<^verbatim>\<open>page.extract_text()\<close> raises, or returns \<^verbatim>\<open>None\<close> or a text; opening the file
  (or reading its page list) raises, or gives the pages. \<open>pypdf_available\<close> is
  \<^verbatim>\<open>PdfReader is not None\<close>.
\<close>

datatype extract_result = ExtractRaises | Extracted "string option"

record pdf_library =
  plumber_pages :: "extract_result list option"
  pypdf_available :: bool
  pypdf_pages :: "extract_result list option"

text \<open>
  The loop \<^verbatim>\<open>for i, page in enumerate(..., start=1)\<close>, the same for both libraries: it appends
  to \<open>pages\<close> and stops at the first exception. The result is the list as it then stands and
  whether an exception came out of the loop.
\<close>

fun extract_loop :: "string \<Rightarrow> nat \<Rightarrow> extract_result list \<Rightarrow> page list \<Rightarrow> page list \<times> bool" where
  "extract_loop file_path i [] pages = (pages, False)"
| "extract_loop file_path i (ExtractRaises # rest) pages = (pages, True)"
| "extract_loop file_path i (Extracted r # rest) pages =
     extract_loop file_path (Suc i) rest
       (pages @ [\<lparr>pg_page = int i,
                  pg_text = clean_text (case r of None \<Rightarrow> [] | Some s \<Rightarrow> s),
                  pg_source = path_basename file_path\<rparr>])"

text \<open>One \<^verbatim>\<open>try\<close> block: open the file, run the loop.\<close>

definition extract_attempt :: "string \<Rightarrow> extract_result list option \<Rightarrow> page list \<Rightarrow> page list \<times> bool" where
  "extract_attempt file_path opened pages =
     (case opened of None \<Rightarrow> (pages, True) | Some rs \<Rightarrow> extract_loop file_path 1 rs pages)"

text \<open>
  \<^verbatim>\<open>extract_text_by_page\<close>: pdfplumber first; when it raised, PyPDF2 if it was imported, on the
  same \<open>pages\<close> list; whatever is in the list at the end is returned. Every exception is
  caught, so the function has no error result.
\<close>

definition extract_text_by_page :: "pdf_library \<Rightarrow> string \<Rightarrow> page list" where
  "extract_text_by_page lib file_path =
     (case extract_attempt file_path (plumber_pages lib) [] of
        (pages, False) \<Rightarrow> pages
      | (pages, True) \<Rightarrow>
          if pypdf_available lib
          then fst (extract_attempt file_path (pypdf_pages lib) pages)
          else pages)"

section \<open>Vector store adapter (utils/rag_chain.py)\<close>

text \<open>
  A store directory is the map from the names of its files to their contents; a directory
  that does not exist yet and an empty one are the same map, since every operation
  creates the directory first (\<^verbatim>\<open>os.makedirs(path, exist_ok=True)\<close>). The code's own writes
  (the marker and \<^verbatim>\<open>docs.json\<close>) are taken to succeed.
\<close>

type_synonym dir = "string \<rightharpoonup> string"

datatype backend = FAISS | Chroma | DocArray

definition store_tag :: "backend \<Rightarrow> string" where
  "store_tag b = (case b of FAISS \<Rightarrow> ''faiss'' | Chroma \<Rightarrow> ''chroma'' | DocArray \<Rightarrow> ''docarray'')"

text \<open>A store object: the backend class it is an instance of and the index the library built.\<close>

datatype 'ix store = Store backend 'ix

definition store_backend :: "'ix store \<Rightarrow> backend" where
  "store_backend s = (case s of Store b ix \<Rightarrow> b)"

text \<open>The records of \<^verbatim>\<open>docs.json\<close>: \<^verbatim>\<open>{"page_content": ..., "metadata": ...}\<close>.\<close>

record raw_doc =
  raw_page_content :: string
  raw_metadata :: doc_metadata

definition raw_of :: "document \<Rightarrow> raw_doc" where
  "raw_of d = \<lparr>raw_page_content = page_content d, raw_metadata = metadata d\<rparr>"

definition doc_of :: "raw_doc \<Rightarrow> document" where
  "doc_of r = \<lparr>page_content = raw_page_content r, metadata = raw_metadata r\<rparr>"

text \<open>
  The libraries are outside the repository; what they do is a parameter. A call that
  touches the directory returns the directory as it leaves it, also when it raises.
  \<^item> \<open>faiss_from_documents\<close>, \<open>docarray_from_documents\<close>: \<^verbatim>\<open>X.from_documents(documents, embeddings)\<close>;
  \<^item> \<open>faiss_save_local\<close>: \<^verbatim>\<open>store.save_local(path)\<close>;
  \<^item> \<open>chroma_from_documents\<close>: \<^verbatim>\<open>Chroma.from_documents(documents, embeddings, persist_directory=path)\<close>;
  \<^item> \<open>chroma_persist\<close>: \<^verbatim>\<open>store.persist()\<close>;
  \<^item> \<open>faiss_load_local\<close>: \<^verbatim>\<open>FAISS.load_local(path, embeddings[, allow_dangerous_deserialization=True])\<close>,
    the flag saying whether the keyword argument is passed;
  \<^item> \<open>chroma_open\<close>: \<^verbatim>\<open>Chroma(persist_directory=path, embedding_function=embeddings)\<close>;
  \<^item> \<open>json_dump\<close>: \<^verbatim>\<open>json.dump\<close> of a record list; \<open>json_load\<close>: \<^verbatim>\<open>json.load\<close> and the reading
    of the two keys of every record, an exception when the content is not such a list.
\<close>

record 'ix libraries =
  faiss_from_documents :: "document list \<Rightarrow> exn + 'ix"
  faiss_save_local :: "'ix \<Rightarrow> dir \<Rightarrow> dir \<times> exn option"
  chroma_from_documents :: "document list \<Rightarrow> dir \<Rightarrow> dir \<times> (exn + 'ix)"
  chroma_persist :: "'ix \<Rightarrow> dir \<Rightarrow> dir \<times> exn option"
  docarray_from_documents :: "document list \<Rightarrow> exn + 'ix"
  faiss_load_local :: "bool \<Rightarrow> dir \<Rightarrow> exn + 'ix"
  chroma_open :: "dir \<Rightarrow> dir \<times> (exn + 'ix)"
  json_dump :: "raw_doc list \<Rightarrow> string"
  json_load :: "string \<Rightarrow> exn + raw_doc list"

definition write_store_type :: "dir \<Rightarrow> string \<Rightarrow> dir" where
  "write_store_type d store_type = d(''store_type.txt'' \<mapsto> store_type)"

definition read_store_type :: "dir \<Rightarrow> string option" where
  "read_store_type d =
     (case d ''store_type.txt'' of None \<Rightarrow> None | Some c \<Rightarrow> Some (py_strip c))"

text \<open>
  The first \<^verbatim>\<open>try\<close> block of \<^verbatim>\<open>build_and_save_store\<close>: build the FAISS index, save it, write
  the marker. \<open>Inl\<close> is the exception the \<^verbatim>\<open>except\<close> clause swallows.
\<close>

definition try_faiss :: "'ix libraries \<Rightarrow> document list \<Rightarrow> dir \<Rightarrow> dir \<times> (exn + 'ix store)" where
  "try_faiss lib documents d =
     (case faiss_from_documents lib documents of
        Inl e \<Rightarrow> (d, Inl e)
      | Inr ix \<Rightarrow>
          (case faiss_save_local lib ix d of
             (d1, Some e) \<Rightarrow> (d1, Inl e)
           | (d1, None) \<Rightarrow> (write_store_type d1 ''faiss'', Inr (Store FAISS ix))))"

text \<open>The second \<^verbatim>\<open>try\<close> block: Chroma on the directory, \<^verbatim>\<open>persist\<close>, the marker.\<close>

definition try_chroma :: "'ix libraries \<Rightarrow> document list \<Rightarrow> dir \<Rightarrow> dir \<times> (exn + 'ix store)" where
  "try_chroma lib documents d =
     (case chroma_from_documents lib documents d of
        (d1, Inl e) \<Rightarrow> (d1, Inl e)
      | (d1, Inr ix) \<Rightarrow>
          (case chroma_persist lib ix d1 of
             (d2, Some e) \<Rightarrow> (d2, Inl e)
           | (d2, None) \<Rightarrow> (write_store_type d2 ''chroma'', Inr (Store Chroma ix))))"

text \<open>
  The final fallback, outside any \<^verbatim>\<open>try\<close>: the in-memory index first (its exception leaves
  the function), then the raw documents to \<^verbatim>\<open>docs.json\<close>, then the marker.
\<close>

definition docarray_fallback :: "'ix libraries \<Rightarrow> document list \<Rightarrow> dir \<Rightarrow> dir \<times> (exn + 'ix store)" where
  "docarray_fallback lib documents d =
     (case docarray_from_documents lib documents of
        Inl e \<Rightarrow> (d, Inl e)
      | Inr ix \<Rightarrow>
          (let raw = map raw_of documents;
               d1 = d(''docs.json'' \<mapsto> json_dump lib raw)
           in (write_store_type d1 ''docarray'', Inr (Store DocArray ix))))"

text \<open>
  What a call of \<^verbatim>\<open>build_and_save_store\<close> leaves: the directory, the returned store or the
  exception that left the function, and the backends whose \<^verbatim>\<open>from_documents\<close> was called, in
  the order of the calls (\<open>attempts\<close> is a log kept by the model; the source has no such
  variable).
\<close>

record 'ix build_outcome =
  out_dir :: dir
  out_result :: "exn + 'ix store"
  attempts :: "backend list"

definition chroma_then_docarray ::
  "'ix libraries \<Rightarrow> document list \<Rightarrow> dir \<Rightarrow> backend list \<Rightarrow> 'ix build_outcome" where
  "chroma_then_docarray lib documents d tried =
     (case try_chroma lib documents d of
        (d1, Inr s) \<Rightarrow> \<lparr>out_dir = d1, out_result = Inr s, attempts = tried @ [Chroma]\<rparr>
      | (d1, Inl e) \<Rightarrow>
          (case docarray_fallback lib documents d1 of
             (d2, r) \<Rightarrow> \<lparr>out_dir = d2, out_result = r, attempts = tried @ [Chroma, DocArray]\<rparr>))"

definition build_and_save_store ::
  "'ix libraries \<Rightarrow> document list \<Rightarrow> dir \<Rightarrow> string \<Rightarrow> 'ix build_outcome" where
  "build_and_save_store lib documents d prefer =
     (if py_lower prefer = ''faiss'' then
        (case try_faiss lib documents d of
           (d1, Inr s) \<Rightarrow> \<lparr>out_dir = d1, out_result = Inr s, attempts = [FAISS]\<rparr>
         | (d1, Inl e) \<Rightarrow> chroma_then_docarray lib documents d1 [FAISS])
      else chroma_then_docarray lib documents d [])"

text \<open>
  \<^verbatim>\<open>FAISS.load_local\<close> with the keyword argument, and without it when that raised
  \<^verbatim>\<open>TypeError\<close>.
\<close>

definition faiss_load :: "'ix libraries \<Rightarrow> dir \<Rightarrow> exn + 'ix" where
  "faiss_load lib d =
     (case faiss_load_local lib True d of
        Inl TypeError \<Rightarrow> faiss_load_local lib False d
      | r \<Rightarrow> r)"

text \<open>Rebuilding the in-memory index from \<^verbatim>\<open>docs.json\<close>; opening a missing file raises.\<close>

definition docarray_rebuild :: "'ix libraries \<Rightarrow> dir \<Rightarrow> exn + 'ix" where
  "docarray_rebuild lib d =
     (case d ''docs.json'' of
        None \<Rightarrow> Inl FileNotFoundError
      | Some c \<Rightarrow>
          (case json_load lib c of
             Inl e \<Rightarrow> Inl e
           | Inr raw \<Rightarrow> docarray_from_documents lib (map doc_of raw)))"

definition as_store :: "backend \<Rightarrow> exn + 'ix \<Rightarrow> exn + 'ix store" where
  "as_store b r = (case r of Inl e \<Rightarrow> Inl e | Inr ix \<Rightarrow> Inr (Store b ix))"

text \<open>
  \<^verbatim>\<open>load_store\<close>: the directory as the call leaves it (the Chroma constructor may write) and
  the store or the exception. With an unknown or missing marker: FAISS; when that raised
  something other than \<^verbatim>\<open>TypeError\<close>, Chroma; when that raised, the raw documents.
\<close>

definition load_store :: "'ix libraries \<Rightarrow> dir \<Rightarrow> dir \<times> (exn + 'ix store)" where
  "load_store lib d =
     (let stype = read_store_type d in
      if stype = Some ''faiss'' then (d, as_store FAISS (faiss_load lib d))
      else if stype = Some ''chroma'' then
        (case chroma_open lib d of (d1, r) \<Rightarrow> (d1, as_store Chroma r))
      else if stype = Some ''docarray'' then (d, as_store DocArray (docarray_rebuild lib d))
      else
        (case faiss_load_local lib True d of
           Inr ix \<Rightarrow> (d, Inr (Store FAISS ix))
         | Inl TypeError \<Rightarrow> (d, as_store FAISS (faiss_load_local lib False d))
         | Inl e \<Rightarrow>
             (case chroma_open lib d of
                (d1, Inr ix) \<Rightarrow> (d1, Inr (Store Chroma ix))
              | (d1, Inl e1) \<Rightarrow> (d1, as_store DocArray (docarray_rebuild lib d1)))))"

section \<open>Conversation history and the chat request (app.py)\<close>

text \<open>
  A history entry as \<^verbatim>\<open>chat\<close> stores it in the session: the user entries carry no
  \<^verbatim>\<open>citations\<close> key, the assistant entries do.
\<close>

record citation =
  cit_source :: string
  cit_page :: int

record entry =
  role :: string
  content :: string
  citations :: "citation list option"

text \<open>
  One iteration of the loop over the stored entries in \<^verbatim>\<open>chat\<close>. The state is
  \<open>last_user\<close> (the pending user message, \<open>None\<close> when there is none) and \<open>chat_history\<close>.
  An entry whose role is neither \<open>user\<close> nor \<open>assistant\<close> changes nothing.
\<close>

definition history_step ::
  "string option \<times> (string \<times> string) list \<Rightarrow> entry \<Rightarrow> string option \<times> (string \<times> string) list" where
  "history_step st msg =
     (case st of (last_user, chat_history) \<Rightarrow>
        if role msg = ''user'' then (Some (content msg), chat_history)
        else if role msg = ''assistant'' then
          (case last_user of
             Some u \<Rightarrow> (None, chat_history @ [(u, content msg)])
           | None \<Rightarrow> (last_user, chat_history))
        else (last_user, chat_history))"

text \<open>The loop from \<open>last_user = None\<close> and the empty \<open>chat_history\<close>; the pairs are its result.\<close>

definition reconstruct :: "entry list \<Rightarrow> (string \<times> string) list" where
  "reconstruct stored = snd (foldl history_step (None, []) stored)"

text \<open>
  The Flask session: the keys \<^verbatim>\<open>sid\<close> and \<^verbatim>\<open>history\<close> may be missing (\<open>None\<close>); a missing
  \<^verbatim>\<open>ready\<close> reads as false. The store directory of a session is found by its id
  (\<^verbatim>\<open>vector_store/session_{sid}\<close>).
\<close>

record session =
  sid :: "string option"
  history :: "entry list option"
  ready :: bool

record app_state =
  sess :: session
  stores :: "string \<Rightarrow> dir"

text \<open>\<^verbatim>\<open>session.get("history", [])\<close>.\<close>

definition stored_history :: "session \<Rightarrow> entry list" where
  "stored_history s = (case history s of None \<Rightarrow> [] | Some h \<Rightarrow> h)"

text \<open>\<^verbatim>\<open>get_session_id\<close>; \<open>fresh\<close> is the value \<^verbatim>\<open>uuid.uuid4().hex\<close> gives when it is called.\<close>

definition get_session_id :: "string \<Rightarrow> session \<Rightarrow> string \<times> session" where
  "get_session_id fresh s =
     (case sid s of
        None \<Rightarrow> (fresh, s\<lparr>sid := Some fresh\<rparr>)
      | Some x \<Rightarrow> if x = [] then (fresh, s\<lparr>sid := Some fresh\<rparr>) else (x, s))"

text \<open>\<^verbatim>\<open>get_session_store_path\<close>: the directory is named by the session id and is created when
  missing, which leaves the directory map as it is.\<close>

definition get_session_store_path :: "string \<Rightarrow> session \<Rightarrow> string \<times> session" where
  "get_session_store_path fresh s = get_session_id fresh s"

text \<open>
  \<^verbatim>\<open>get_llm\<close>. A model object is the constructor call that made it: \<^verbatim>\<open>ChatOpenAI\<close> with the
  model and the key, \<^verbatim>\<open>HuggingFaceEndpoint\<close> with the URL, the task and the token,
  \<^verbatim>\<open>HuggingFaceHub\<close> with the repository, the task and the token. The constructors belong
  to the libraries and may raise (the endpoint class validates its arguments): \<open>raises\<close>
  gives the exception of a call, \<open>None\<close> when it returns the object.
\<close>

datatype llm =
    ChatOpenAI string string
  | HuggingFaceEndpoint string string string
  | HuggingFaceHub string string string

definition construct :: "(llm \<Rightarrow> exn option) \<Rightarrow> llm \<Rightarrow> exn + llm" where
  "construct raises call = (case raises call of None \<Rightarrow> Inr call | Some e \<Rightarrow> Inl e)"

definition unset :: "string option \<Rightarrow> bool" where
  "unset v = (case v of None \<Rightarrow> True | Some x \<Rightarrow> x = [])"

definition getenv_default :: "(string \<Rightarrow> string option) \<Rightarrow> string \<Rightarrow> string \<Rightarrow> string" where
  "getenv_default getenv name dflt = (case getenv name of None \<Rightarrow> dflt | Some v \<Rightarrow> v)"

definition get_llm ::
  "(string \<Rightarrow> string option) \<Rightarrow> (llm \<Rightarrow> exn option) \<Rightarrow> string \<Rightarrow> exn + llm" where
  "get_llm getenv raises model_name =
     (let provider = getenv_default getenv ''LLM_PROVIDER'' ''hub'' in
      if provider = ''openrouter'' then
        (let api_key = getenv ''OPENROUTER_API_KEY'' in
         if unset api_key
         then Inl (RuntimeError ''OPENROUTER_API_KEY is required when LLM_PROVIDER=openrouter.'')
         else construct raises (ChatOpenAI
                (getenv_default getenv ''OPENROUTER_MODEL'' ''meta-llama/llama-3.1-8b-instruct:free'')
                (getenv_default getenv ''OPENROUTER_API_KEY'' [])))
      else
        (let token = getenv ''HUGGINGFACEHUB_API_TOKEN'' in
         if unset token
         then Inl (RuntimeError ''HUGGINGFACEHUB_API_TOKEN is required for HuggingFaceHub LLM.'')
         else
           (let task = getenv_default getenv ''LLM_TASK'' ''text2text-generation'';
                tok = getenv_default getenv ''HUGGINGFACEHUB_API_TOKEN'' [] in
            if provider = ''endpoint'' then
              (let endpoint_url = getenv ''HF_ENDPOINT_URL'' in
               if unset endpoint_url
               then Inl (RuntimeError ''HF_ENDPOINT_URL is required when LLM_PROVIDER=endpoint.'')
               else construct raises (HuggingFaceEndpoint (getenv_default getenv ''HF_ENDPOINT_URL'' []) task tok))
            else construct raises (HuggingFaceHub model_name task tok))))"

text \<open>
  What the conversational chain returns: a dictionary in which \<^verbatim>\<open>answer\<close>, \<^verbatim>\<open>result\<close> and
  \<^verbatim>\<open>source_documents\<close> may each be missing.
\<close>

record qa_result =
  res_answer :: "string option"
  res_result :: "string option"
  res_source_documents :: "document list option"

text \<open>
  The surroundings of a request: the libraries, the process environment, which model
  constructor calls raise, the next session id, the module-level settings read at import, and the chain: \<open>conv_invoke\<close> is
  \<^verbatim>\<open>build_conv_chain(llm, get_retriever(store, top_k)).invoke(...)\<close> on a question and the
  history pairs, an exception or a result. Building the retriever and the chain is taken
  not to raise.
\<close>

record 'ix chat_env =
  libs :: "'ix libraries"
  getenv :: "string \<Rightarrow> string option"
  llm_raises :: "llm \<Rightarrow> exn option"
  fresh_sid :: string
  chunk_size :: int
  chunk_overlap :: int
  top_k_results :: int
  llm_model :: string
  vector_store_pref :: string
  conv_invoke :: "llm \<Rightarrow> 'ix store \<Rightarrow> int \<Rightarrow> string \<Rightarrow> (string \<times> string) list \<Rightarrow> exn + qa_result"

text \<open>A JSON response: an error with its status, message and the exception it formats, or
  the body of a success.\<close>

datatype response =
    ErrorResponse nat string "exn option"
  | ChatResponse string "citation list"
  | UploadResponse "string list" nat

text \<open>\<^verbatim>\<open>result.get("answer") or result.get("result", "")\<close>.\<close>

definition result_answer :: "qa_result \<Rightarrow> string" where
  "result_answer r =
     (let fallback = (case res_result r of None \<Rightarrow> [] | Some x \<Rightarrow> x) in
      case res_answer r of None \<Rightarrow> fallback | Some a \<Rightarrow> if a = [] then fallback else a)"

definition citation_of :: "document \<Rightarrow> citation" where
  "citation_of d = \<lparr>cit_source = md_source (metadata d), cit_page = md_page (metadata d)\<rparr>"

text \<open>\<^verbatim>\<open>data.get("question", "").strip()\<close>, on the request's \<^verbatim>\<open>question\<close> (\<open>None\<close> when missing).\<close>

definition request_question :: "string option \<Rightarrow> string" where
  "request_question req_question = py_strip (case req_question of None \<Rightarrow> [] | Some q \<Rightarrow> q)"

text \<open>
  The \<^verbatim>\<open>/chat\<close> handler on the request's \<^verbatim>\<open>question\<close> (\<open>None\<close> when the key is missing): the
  state after the request and the response.
\<close>

definition chat :: "'ix chat_env \<Rightarrow> app_state \<Rightarrow> string option \<Rightarrow> app_state \<times> response" where
  "chat env st req_question =
     (let question = request_question req_question in
      if question = [] then (st, ErrorResponse 400 ''Question is required.'' None)
      else if \<not> ready (sess st) then (st, ErrorResponse 409 ''Documents are not processed yet.'' None)
      else
        (case get_session_store_path (fresh_sid env) (sess st) of (store_path, s1) \<Rightarrow>
         case load_store (libs env) (stores st store_path) of (d1, loaded) \<Rightarrow>
           (let st1 = st\<lparr>sess := s1, stores := (stores st)(store_path := d1)\<rparr> in
            case loaded of
              Inl e \<Rightarrow> (st1, ErrorResponse 500 ''Failed to load vector store: '' (Some e))
            | Inr store \<Rightarrow>
                (case get_llm (getenv env) (llm_raises env) (llm_model env) of
                   Inl e \<Rightarrow> (st1, ErrorResponse 500 ''LLM not configured: '' (Some e))
                 | Inr llm \<Rightarrow>
                     (let stored = stored_history s1;
                          chat_history = reconstruct stored in
                      case conv_invoke env llm store (top_k_results env) question chat_history of
                        Inl e \<Rightarrow> (st1, ErrorResponse 500 ''LLM processing error: '' (Some e))
                      | Inr result \<Rightarrow>
                          (let answer = result_answer result;
                               source_docs = (case res_source_documents result of None \<Rightarrow> [] | Some ds \<Rightarrow> ds);
                               citations = map citation_of source_docs;
                               history' = stored @
                                 [\<lparr>role = ''user'', content = question, citations = None\<rparr>,
                                  \<lparr>role = ''assistant'', content = answer, citations = Some citations\<rparr>]
                           in (st1\<lparr>sess := s1\<lparr>history := Some history'\<rparr>\<rparr>,
                               ChatResponse answer citations)))))))"

text \<open>
  The \<^verbatim>\<open>/upload\<close> handler after its loop over the files, on the pages extracted and the
  names saved: build the documents, build the store in the session's directory, reset the
  history.
\<close>

definition upload_build ::
  "'ix chat_env \<Rightarrow> app_state \<Rightarrow> page list \<Rightarrow> string list \<Rightarrow> app_state \<times> response" where
  "upload_build env st all_pages saved_files =
     (let documents = build_documents all_pages (chunk_size env) (chunk_overlap env) in
      case get_session_store_path (fresh_sid env) (sess st) of (store_path, s1) \<Rightarrow>
        (let out = build_and_save_store (libs env) documents (stores st store_path) (vector_store_pref env);
             st1 = st\<lparr>sess := s1, stores := (stores st)(store_path := out_dir out)\<rparr>
         in case out_result out of
              Inl e \<Rightarrow> (st1, ErrorResponse 500 ''Vector store build failed: '' (Some e))
            | Inr store \<Rightarrow>
                (st1\<lparr>sess := s1\<lparr>history := Some [], ready := True\<rparr>\<rparr>,
                 UploadResponse saved_files (length all_pages))))"

section \<open>Notions the claims are stated with\<close>

text \<open>
  De-overlapping a chunk sequence: every chunk after the first loses its first \<open>ov\<close>
  characters (the part it shares with the chunk before it), and the pieces are concatenated.
\<close>

definition deoverlap :: "nat \<Rightarrow> 'a list list \<Rightarrow> 'a list" where
  "deoverlap ov cs = (case cs of [] \<Rightarrow> [] | c # rest \<Rightarrow> c @ concat (map (drop ov) rest))"

text \<open>What identifies a document within the output: its source, its page and its chunk_id.\<close>

definition doc_key :: "document \<Rightarrow> string \<times> int \<times> string" where
  "doc_key d = (md_source (metadata d), md_page (metadata d), chunk_id (metadata d))"

text \<open>
  How many pages one extractor appends: the results before its first exception. pdfplumber
  raised when opening did or a page did; PyPDF2 is run only then, and only when imported.
\<close>

definition is_extracted :: "extract_result \<Rightarrow> bool" where
  "is_extracted r = (case r of ExtractRaises \<Rightarrow> False | Extracted x \<Rightarrow> True)"

definition appended :: "extract_result list option \<Rightarrow> nat" where
  "appended opened = (case opened of None \<Rightarrow> 0 | Some rs \<Rightarrow> length (takeWhile is_extracted rs))"

definition raised :: "extract_result list option \<Rightarrow> bool" where
  "raised opened = (case opened of None \<Rightarrow> True | Some rs \<Rightarrow> \<not> list_all is_extracted rs)"

definition plumber_count :: "pdf_library \<Rightarrow> nat" where
  "plumber_count lib = appended (plumber_pages lib)"

definition pypdf_count :: "pdf_library \<Rightarrow> nat" where
  "pypdf_count lib =
     (if raised (plumber_pages lib) \<and> pypdf_available lib then appended (pypdf_pages lib) else 0)"

text \<open>
  The store directory of the session of a request: the one named by the session id, by the
  fresh id when the session has none yet. What loading it gives is what the \<^verbatim>\<open>/chat\<close>
  handler gets from \<open>load_store\<close>.
\<close>

definition session_dir :: "'ix chat_env \<Rightarrow> app_state \<Rightarrow> dir" where
  "session_dir env st =
     stores st (case sid (sess st) of
                  None \<Rightarrow> fresh_sid env
                | Some x \<Rightarrow> if x = [] then fresh_sid env else x)"

definition chat_loaded :: "'ix chat_env \<Rightarrow> app_state \<Rightarrow> exn + 'ix store" where
  "chat_loaded env st = snd (load_store (libs env) (session_dir env st))"


text \<open>The fixed order of the backends for a preference.\<close>

definition backend_order :: "string \<Rightarrow> backend list" where
  "backend_order prefer =
     (if py_lower prefer = ''faiss'' then [FAISS, Chroma, DocArray] else [Chroma, DocArray])"

text \<open>
  The FAISS attempt did not serve a build and left the directory \<open>d0\<close>: FAISS was not the
  preference and was skipped, or building the index raised, or saving it raised (after
  whatever it wrote). The Chroma attempt on \<open>d0\<close> raised and left \<open>d1\<close>: in
  \<^verbatim>\<open>from_documents\<close> or in \<^verbatim>\<open>persist\<close>. Both are stated of the library calls alone.
\<close>

definition faiss_skipped_or_raised ::
  "'ix libraries \<Rightarrow> document list \<Rightarrow> string \<Rightarrow> dir \<Rightarrow> dir \<Rightarrow> bool" where
  "faiss_skipped_or_raised lib documents prefer d d0 =
     (if py_lower prefer = ''faiss'' then
        (case faiss_from_documents lib documents of
           Inl e \<Rightarrow> d0 = d
         | Inr ix \<Rightarrow>
             fst (faiss_save_local lib ix d) = d0 \<and> snd (faiss_save_local lib ix d) \<noteq> None)
      else d0 = d)"

definition chroma_raised :: "'ix libraries \<Rightarrow> document list \<Rightarrow> dir \<Rightarrow> dir \<Rightarrow> bool" where
  "chroma_raised lib documents d0 d1 =
     (case chroma_from_documents lib documents d0 of
        (dm, Inl e) \<Rightarrow> d1 = dm
      | (dm, Inr ix) \<Rightarrow>
          fst (chroma_persist lib ix dm) = d1 \<and> snd (chroma_persist lib ix dm) \<noteq> None)"

section \<open>Concrete surroundings for the examples\<close>

text \<open>
  An installation in which FAISS works and Chroma cannot be imported. An index is
  represented by the documents it was built from. \<^verbatim>\<open>save_local\<close> writes its two files,
  the second holding the documents; the serialisation of a record list is one entry per
  record, the \<open>chunk_id\<close> and the content.
\<close>

definition example_dump :: "raw_doc list \<Rightarrow> string" where
  "example_dump raw = concat (map (\<lambda>r. chunk_id (raw_metadata r) @ '':'' @ raw_page_content r @ '';'') raw)"

definition example_docs_a :: "document list" where
  "example_docs_a = build_documents [\<lparr>pg_page = 1, pg_text = ''first'', pg_source = ''a.pdf''\<rparr>] 1000 200"

definition example_docs_b :: "document list" where
  "example_docs_b = build_documents [\<lparr>pg_page = 1, pg_text = ''second'', pg_source = ''b.pdf''\<rparr>] 1000 200"

text \<open>Reading a serialisation back: the record lists the examples write are recognised.\<close>

definition example_known :: "raw_doc list list" where
  "example_known =
     map (map raw_of) [[], example_docs_a, example_docs_b, example_docs_a @ example_docs_b]"

definition example_load :: "string \<Rightarrow> exn + raw_doc list" where
  "example_load c =
     (case find (\<lambda>raw. example_dump raw = c) example_known of
        None \<Rightarrow> Inl (LibraryError ''JSONDecodeError'')
      | Some raw \<Rightarrow> Inr raw)"

definition example_libraries :: "document list libraries" where
  "example_libraries =
     \<lparr>faiss_from_documents = (\<lambda>docs. Inr docs),
      faiss_save_local = (\<lambda>ix d. (d(''index.faiss'' \<mapsto> ''vectors'', ''index.pkl'' \<mapsto> example_dump (map raw_of ix)), None)),
      chroma_from_documents = (\<lambda>docs d. (d, Inl (LibraryError ''ImportError''))),
      chroma_persist = (\<lambda>ix d. (d, None)),
      docarray_from_documents = (\<lambda>docs. Inr docs),
      faiss_load_local = (\<lambda>flag d.
        case d ''index.pkl'' of
          None \<Rightarrow> Inl (RuntimeError ''could not open index.pkl'')
        | Some c \<Rightarrow> (case example_load c of Inl e \<Rightarrow> Inl e | Inr raw \<Rightarrow> Inr (map doc_of raw))),
      chroma_open = (\<lambda>d. (d, Inl (LibraryError ''ImportError''))),
      json_dump = example_dump,
      json_load = example_load\<rparr>"

text \<open>
  An installation in which FAISS cannot be imported and Chroma works. The collection lives
  in one file of the directory; \<^verbatim>\<open>Chroma.from_documents\<close> and the \<^verbatim>\<open>Chroma\<close> constructor open the
  collection that is there and create an empty one when there is none, and
  \<^verbatim>\<open>from_documents\<close> adds the documents to it.
\<close>

definition example_collection :: "dir \<Rightarrow> exn + document list" where
  "example_collection d =
     (case d ''chroma.sqlite3'' of
        None \<Rightarrow> Inr []
      | Some c \<Rightarrow> (case example_load c of Inl e \<Rightarrow> Inl e | Inr raw \<Rightarrow> Inr (map doc_of raw)))"

definition example_chroma_libraries :: "document list libraries" where
  "example_chroma_libraries =
     \<lparr>faiss_from_documents = (\<lambda>docs. Inl (LibraryError ''ImportError'')),
      faiss_save_local = (\<lambda>ix d. (d, Some (LibraryError ''ImportError''))),
      chroma_from_documents = (\<lambda>docs d.
        case example_collection d of
          Inl e \<Rightarrow> (d, Inl e)
        | Inr old \<Rightarrow> (d(''chroma.sqlite3'' \<mapsto> example_dump (map raw_of (old @ docs))), Inr (old @ docs))),
      chroma_persist = (\<lambda>ix d. (d, None)),
      docarray_from_documents = (\<lambda>docs. Inr docs),
      faiss_load_local = (\<lambda>flag d. Inl (LibraryError ''ImportError'')),
      chroma_open = (\<lambda>d.
        case example_collection d of
          Inl e \<Rightarrow> (d, Inl e)
        | Inr old \<Rightarrow> (d(''chroma.sqlite3'' \<mapsto> example_dump (map raw_of old)), Inr old)),
      json_dump = example_dump,
      json_load = example_load\<rparr>"

text \<open>A scanned file, on which pdfplumber reads one page and raises on the second, and
  PyPDF2 reads both.\<close>

definition example_pdf :: pdf_library where
  "example_pdf =
     \<lparr>plumber_pages = Some [Extracted (Some ''one''), ExtractRaises],
      pypdf_available = True,
      pypdf_pages = Some [Extracted (Some ''one''), Extracted None]\<rparr>"

text \<open>A session that is ready, with one exchange in its history.\<close>

definition example_session :: session where
  "example_session =
     \<lparr>sid = Some ''s1'',
      history = Some [\<lparr>role = ''user'', content = ''A'', citations = None\<rparr>,
                      \<lparr>role = ''assistant'', content = ''B'', citations = Some []\<rparr>],
      ready = True\<rparr>"

text \<open>A first build in an empty directory with Chroma preferred, which ends in the fallback,
  and the directory it leaves.\<close>

definition example_empty_dir :: dir where
  "example_empty_dir = Map.empty"

definition example_build :: "document list build_outcome" where
  "example_build = build_and_save_store example_libraries example_docs_a example_empty_dir ''chroma''"

definition example_dir :: dir where
  "example_dir = out_dir example_build"

definition example_env ::
  "(string \<Rightarrow> string option) \<Rightarrow> (exn + qa_result) \<Rightarrow> document list chat_env" where
  "example_env vars answer =
     \<lparr>libs = example_libraries, getenv = vars, llm_raises = (\<lambda>call. None), fresh_sid = ''s2'',
      chunk_size = 1000, chunk_overlap = 200, top_k_results = 3,
      llm_model = ''google/flan-t5-base'', vector_store_pref = ''faiss'',
      conv_invoke = (\<lambda>llm store k question pairs. answer)\<rparr>"

definition example_vars :: "string \<Rightarrow> string option" where
  "example_vars = [''HUGGINGFACEHUB_API_TOKEN'' \<mapsto> ''token'']"

definition example_no_vars :: "string \<Rightarrow> string option" where
  "example_no_vars = Map.empty"

definition example_result :: qa_result where
  "example_result =
     \<lparr>res_answer = Some ''D'', res_result = None, res_source_documents = Some example_docs_a\<rparr>"

definition example_state :: "dir \<Rightarrow> app_state" where
  "example_state d = \<lparr>sess = example_session, stores = (\<lambda>s. Map.empty)(''s1'' := d)\<rparr>"

text \<open>A directory that holds the marker \<open>docarray\<close> and nothing else.\<close>

definition example_dir_no_payload :: dir where
  "example_dir_no_payload = write_store_type Map.empty ''docarray''"

text \<open>A second build in the directory of the first, now with FAISS preferred.\<close>

definition example_rebuild :: "document list build_outcome" where
  "example_rebuild = build_and_save_store example_libraries example_docs_b example_dir ''faiss''"

text \<open>Two builds with the Chroma installation, the second in the directory of the first, and
  a directory that holds the marker \<open>chroma\<close> and nothing else.\<close>

definition example_chroma_build :: "document list build_outcome" where
  "example_chroma_build =
     build_and_save_store example_chroma_libraries example_docs_a example_empty_dir ''faiss''"


definition example_dir_chroma_marker :: dir where
  "example_dir_chroma_marker = write_store_type Map.empty ''chroma''"

text \<open>An environment in which the endpoint class rejects its arguments.\<close>

definition example_endpoint_vars :: "string \<Rightarrow> string option" where
  "example_endpoint_vars =
     [''HUGGINGFACEHUB_API_TOKEN'' \<mapsto> ''token'', ''LLM_PROVIDER'' \<mapsto> ''endpoint'',
      ''HF_ENDPOINT_URL'' \<mapsto> ''https://example.invalid'']"

definition example_endpoint_raises :: "llm \<Rightarrow> exn option" where
  "example_endpoint_raises call =
     (case call of
        HuggingFaceEndpoint url task tok \<Rightarrow> Some (LibraryError ''ValidationError'')
      | _ \<Rightarrow> None)"

section \<open>The chunker: termination, reconstruction, offsets, identifiers\<close>

lemma py_slice_nonneg:
  "0 \<le> i \<Longrightarrow> i \<le> j \<Longrightarrow> j \<le> int (length xs) \<Longrightarrow>
   py_slice xs i j = take (nat (j - i)) (drop (nat i) xs)"
  by (simp add: py_slice_def Let_def min_def)

lemma chunk_loop_acc:
  "chunk_loop t s ov st acc = acc @ chunk_loop t s ov st []"
proof (induction "nat (int (length t) - st)" arbitrary: st acc rule: less_induct)
  case less
  let ?n = "int (length t)"
  let ?c = "py_slice t st (min ?n (st + s))"
  let ?st' = "st + max 1 (s - ov)"
  show ?case
  proof (cases "st < ?n \<and> \<not> ?n \<le> min ?n (st + s)")
    case True
    have m: "nat (?n - ?st') < nat (?n - st)" using True by auto
    have a: "chunk_loop t s ov st acc = chunk_loop t s ov ?st' (acc @ [?c])"
      using True by (subst chunk_loop.simps) (simp add: Let_def)
    have b: "chunk_loop t s ov st [] = chunk_loop t s ov ?st' [?c]"
      using True by (subst chunk_loop.simps) (simp add: Let_def)
    have "chunk_loop t s ov ?st' (acc @ [?c]) = (acc @ [?c]) @ chunk_loop t s ov ?st' []"
      using less [OF m] .
    moreover have "chunk_loop t s ov ?st' [?c] = [?c] @ chunk_loop t s ov ?st' []"
      using less [OF m] .
    ultimately show ?thesis using a b by simp
  next
    case False
    then show ?thesis
      by (subst chunk_loop.simps, subst (2) chunk_loop.simps) (auto simp add: Let_def)
  qed
qed

lemma chunk_loop_unfold:
  "chunk_loop t s ov st [] =
     (if st < int (length t)
      then py_slice t st (min (int (length t)) (st + s)) #
           (if int (length t) \<le> min (int (length t)) (st + s) then []
            else chunk_loop t s ov (st + max 1 (s - ov)) [])
      else [])"
  by (subst chunk_loop.simps, subst chunk_loop_acc) (simp add: Let_def)

lemma chunk_loop_nth:
  "k < length (chunk_loop t s ov st []) \<Longrightarrow>
   chunk_loop t s ov st [] ! k =
     py_slice t (st + int k * max 1 (s - ov))
       (min (int (length t)) (st + int k * max 1 (s - ov) + s))"
proof (induction k arbitrary: st)
  case 0
  then show ?case by (subst chunk_loop_unfold) (auto split: if_splits simp: chunk_loop_unfold [of t s ov st])
next
  case (Suc k)
  let ?n = "int (length t)"
  let ?st' = "st + max 1 (s - ov)"
  from Suc.prems have lt: "st < ?n" and more: "\<not> ?n \<le> min ?n (st + s)"
    by (auto simp: chunk_loop_unfold [of t s ov st] split: if_splits)
  have u: "chunk_loop t s ov st [] = py_slice t st (min ?n (st + s)) # chunk_loop t s ov ?st' []"
    using lt more by (subst chunk_loop_unfold) simp
  from Suc.prems u have "k < length (chunk_loop t s ov ?st' [])" by simp
  from Suc.IH [OF this] show ?case
    by (simp add: u algebra_simps)
qed

lemma chunk_loop_length_step1:
  "0 < s \<Longrightarrow> st < int (length t) \<Longrightarrow>
   int (length (chunk_loop t s (s - 1) st [])) =
     (if int (length t) \<le> st + s then 1 else int (length t) - s - st + 1)"
proof (induction "nat (int (length t) - st)" arbitrary: st rule: less_induct)
  case less
  let ?n = "int (length t)"
  show ?case
  proof (cases "?n \<le> st + s")
    case True
    then show ?thesis using less.prems by (subst chunk_loop_unfold) simp
  next
    case False
    have m: "nat (?n - (st + 1)) < nat (?n - st)" using less.prems by auto
    have lt: "st + 1 < ?n" using False less.prems by auto
    have "chunk_loop t s (s - 1) st [] = py_slice t st (min ?n (st + s)) # chunk_loop t s (s - 1) (st + 1) []"
      using False less.prems by (subst chunk_loop_unfold) simp
    then show ?thesis using less.hyps [OF m less.prems(1) lt] False by simp
  qed
qed

lemma chunk_loop_deoverlap:
  "0 \<le> st \<Longrightarrow> 0 \<le> ov \<Longrightarrow> ov < s \<Longrightarrow> st + ov < int (length t) \<Longrightarrow>
   concat (map (drop (nat ov)) (chunk_loop t s ov st [])) = drop (nat (st + ov)) t"
proof (induction "nat (int (length t) - st)" arbitrary: st rule: less_induct)
  case less
  let ?n = "int (length t)"
  have stn: "st < ?n" using less.prems by simp
  show ?case
  proof (cases "?n \<le> st + s")
    case True
    have "chunk_loop t s ov st [] = [py_slice t st ?n]"
      using True stn by (subst chunk_loop_unfold) simp
    moreover have "py_slice t st ?n = drop (nat st) t"
      using less.prems stn by (simp add: py_slice_nonneg)
    ultimately show ?thesis using less.prems by (simp add: nat_add_distrib add.commute)
  next
    case False
    let ?st' = "st + (s - ov)"
    have step: "max 1 (s - ov) = s - ov" using less.prems by simp
    have u: "chunk_loop t s ov st [] = py_slice t st (st + s) # chunk_loop t s ov ?st' []"
      using False stn by (subst chunk_loop_unfold) (simp add: step min_def)
    have c: "py_slice t st (st + s) = take (nat s) (drop (nat st) t)"
      using less.prems False by (simp add: py_slice_nonneg)
    have m: "nat (?n - ?st') < nat (?n - st)" using less.prems stn by auto
    have ih: "concat (map (drop (nat ov)) (chunk_loop t s ov ?st' [])) = drop (nat (st + s)) t"
      using less.hyps [OF m _ less.prems(2,3)] less.prems False by simp
    let ?A = "drop (nat (st + ov)) t"
    have d1: "drop (nat ov) (py_slice t st (st + s)) = take (nat (s - ov)) ?A"
    proof -
      have "nat (st + ov) = nat ov + nat st" "nat (s - ov) = nat s - nat ov"
        using less.prems by arith+
      then show ?thesis by (simp add: c drop_take)
    qed
    have d2: "drop (nat (st + s)) t = drop (nat (s - ov)) ?A"
    proof -
      have "nat (st + s) = nat (s - ov) + nat (st + ov)" using less.prems by arith
      then show ?thesis by (simp only: drop_drop)
    qed
    have "concat (map (drop (nat ov)) (chunk_loop t s ov st [])) =
          drop (nat ov) (py_slice t st (st + s)) @
          concat (map (drop (nat ov)) (chunk_loop t s ov ?st' []))"
      by (simp only: u list.map concat.simps)
    also have "\<dots> = take (nat (s - ov)) ?A @ drop (nat (s - ov)) ?A"
      by (simp only: d1 ih d2)
    also have "\<dots> = ?A" by (rule append_take_drop_id)
    finally show ?thesis .
  qed
qed

lemma chunk_text_nonempty: "(chunk_text t sz overlap = []) = (t = [])"
  by (simp add: chunk_text_def chunk_loop_unfold [of t sz overlap 0])

text \<open>
  Claim C2. For \<open>size > 0\<close> and \<open>0 \<le> overlap < size\<close>, chunking one page's text terminates
  (\<open>chunk_text\<close> is a total function: the loop has a termination proof), the chunk list is
  empty exactly when the text is empty, and dropping the first \<open>overlap\<close> characters of
  every chunk after the first and concatenating the chunks in order gives back the text.
\<close>
theorem chunk_text_reconstructs:
  assumes "0 < sz" and "0 \<le> overlap" and "overlap < sz"
  shows "(chunk_text t sz overlap = [] \<longleftrightarrow> t = []) \<and>
         deoverlap (nat overlap) (chunk_text t sz overlap) = t"
proof
  show "chunk_text t sz overlap = [] \<longleftrightarrow> t = []" by (rule chunk_text_nonempty)
next
  let ?n = "int (length t)"
  show "deoverlap (nat overlap) (chunk_text t sz overlap) = t"
  proof (cases "t = []")
    case True
    then show ?thesis by (simp add: chunk_text_def deoverlap_def)
  next
    case False
    then have pos: "0 < ?n" by simp
    show ?thesis
    proof (cases "?n \<le> sz")
      case True
      have "chunk_loop t sz overlap 0 [] = [py_slice t 0 ?n]"
        using True pos by (subst chunk_loop_unfold) simp
      then show ?thesis using False
        by (simp add: chunk_text_def deoverlap_def py_slice_nonneg)
    next
      case lt: False
      have step: "max 1 (sz - overlap) = sz - overlap" using assms by simp
      have u: "chunk_loop t sz overlap 0 [] =
               py_slice t 0 sz # chunk_loop t sz overlap (sz - overlap) []"
        using lt pos by (subst chunk_loop_unfold) (simp add: step min_def)
      have c: "py_slice t 0 sz = take (nat sz) t"
        using lt assms by (simp add: py_slice_nonneg)
      have "concat (map (drop (nat overlap)) (chunk_loop t sz overlap (sz - overlap) [])) =
            drop (nat (sz - overlap + overlap)) t"
        using assms lt by (intro chunk_loop_deoverlap) simp_all
      then show ?thesis using False
        by (simp add: chunk_text_def deoverlap_def u c)
    qed
  qed
qed

lemma chunk_text_example_3_1: "chunk_text ''abcdefg'' 3 1 = [''abc'', ''cde'', ''efg'']"
  by code_simp

text \<open>C2 at \<open>size = 3\<close>, \<open>overlap = 1\<close> and the text \<open>abcdefg\<close>.\<close>
theorem chunk_text_reconstructs_witness:
  "(0::int) < 3 \<and> (0::int) \<le> 1 \<and> (1::int) < 3 \<and> chunk_text ''abcdefg'' 3 1 = [''abc'', ''cde'', ''efg''] \<and>
   deoverlap (nat 1) [''abc'', ''cde'', ''efg''] = ''abcdefg''"
  using chunk_text_reconstructs [of 3 1 "''abcdefg''"] chunk_text_example_3_1
  by simp

text \<open>
  Claim C8. For \<open>size > 0\<close> and \<open>0 \<le> overlap < size\<close>, the chunk at position \<open>k\<close> is the
  slice of the text that starts at offset \<open>k * max(1, size - overlap)\<close>: every chunk starts
  exactly one step after the one before. With \<open>overlap = size - 1\<close> and a text longer than
  \<open>size\<close>, the number of chunks is \<open>max(1, len(text) - size + 1)\<close>.
\<close>
theorem chunk_text_starts:
  assumes "0 < sz" and "0 \<le> overlap" and "overlap < sz"
  shows "(\<forall>k < length (chunk_text t sz overlap).
            chunk_text t sz overlap ! k =
              py_slice t (int k * max 1 (sz - overlap))
                (min (int (length t)) (int k * max 1 (sz - overlap) + sz))) \<and>
         (overlap = sz - 1 \<and> sz < int (length t) \<longrightarrow>
            int (length (chunk_text t sz overlap)) = max 1 (int (length t) - sz + 1))"
proof (intro conjI allI impI)
  fix k
  assume "k < length (chunk_text t sz overlap)"
  then have ne: "t \<noteq> []" and k: "k < length (chunk_loop t sz overlap 0 [])"
    by (auto simp: chunk_text_def split: if_splits)
  from chunk_loop_nth [OF k] ne
  show "chunk_text t sz overlap ! k =
          py_slice t (int k * max 1 (sz - overlap))
            (min (int (length t)) (int k * max 1 (sz - overlap) + sz))"
    by (simp add: chunk_text_def)
next
  assume a: "overlap = sz - 1 \<and> sz < int (length t)"
  then have ne: "t \<noteq> []" using assms by auto
  have "int (length (chunk_loop t sz (sz - 1) 0 [])) = int (length t) - sz + 1"
    using chunk_loop_length_step1 [of sz 0 t] assms a ne by simp
  then show "int (length (chunk_text t sz overlap)) = max 1 (int (length t) - sz + 1)"
    using a ne by (simp add: chunk_text_def)
qed

lemma chunk_text_example_3_2: "chunk_text ''abcde'' 3 2 = [''abc'', ''bcd'', ''cde'']"
  by code_simp

text \<open>C8 at \<open>size = 3\<close>, \<open>overlap = 2\<close> and the text \<open>abcde\<close>.\<close>
theorem chunk_text_starts_witness:
  "(0::int) < 3 \<and> (0::int) \<le> 2 \<and> (2::int) < 3 \<and> (2::int) = 3 - 1 \<and> 3 < int (length ''abcde'') \<and>
   chunk_text ''abcde'' 3 2 ! 1 = py_slice ''abcde'' 1 4 \<and>
   int (length (chunk_text ''abcde'' 3 2)) = 3"
proof -
  have len: "1 < length (chunk_text ''abcde'' 3 2)" by (simp add: chunk_text_example_3_2)
  have "chunk_text ''abcde'' 3 2 ! 1 =
          py_slice ''abcde'' (int 1 * max 1 (3 - 2)) (min (int (length ''abcde'')) (int 1 * max 1 (3 - 2) + 3))"
    using chunk_text_starts [of 3 2 "''abcde''"] len by simp
  moreover have "int (length (chunk_text ''abcde'' 3 2)) = max 1 (int (length ''abcde'') - 3 + 1)"
    using chunk_text_starts [of 3 2 "''abcde''"] by simp
  ultimately show ?thesis by simp
qed

lemma chunk_loop_length_le:
  "length (chunk_loop t s ov st []) \<le> nat (int (length t) - st)"
proof (induction "nat (int (length t) - st)" arbitrary: st rule: less_induct)
  case less
  let ?n = "int (length t)"
  let ?st' = "st + max 1 (s - ov)"
  show ?case
  proof (cases "st < ?n")
    case True
    have m: "nat (?n - ?st') < nat (?n - st)" using True by auto
    from less [OF m] have "length (chunk_loop t s ov ?st' []) \<le> nat (?n - ?st')" .
    then show ?thesis using True m by (subst chunk_loop_unfold) auto
  next
    case False
    then show ?thesis by (subst chunk_loop_unfold) simp
  qed
qed

lemma build_documents_concat:
  "build_documents pages sz ov = concat (map (\<lambda>p. page_documents p sz ov) pages)"
proof -
  have "foldl (\<lambda>docs p. docs @ page_documents p sz ov) acc pages =
        acc @ concat (map (\<lambda>p. page_documents p sz ov) pages)" for acc
    by (induction pages arbitrary: acc) simp_all
  then show ?thesis by (simp add: build_documents_def)
qed

text \<open>
  Claim C5, as amended. \<^verbatim>\<open>_chunk_text\<close> and \<^verbatim>\<open>build_documents\<close> check neither parameter and
  raise nothing. With \<open>size \<le> 0\<close> or \<open>overlap < 0\<close> they return normally: a page's text of
  length \<open>n\<close> gives at least one and at most \<open>n\<close> chunks when it is not empty, no chunk when
  it is, and \<^verbatim>\<open>build_documents\<close> emits one document for every chunk of every page.
\<close>
theorem chunk_text_no_validation:
  assumes "sz \<le> 0 \<or> overlap < 0"
  shows "length (chunk_text t sz overlap) \<le> length t \<and>
         (chunk_text t sz overlap = [] \<longleftrightarrow> t = []) \<and>
         length (build_documents pages sz overlap) =
           sum_list (map (\<lambda>p. length (chunk_text (pg_text p) sz overlap)) pages)"
proof (intro conjI)
  show "length (chunk_text t sz overlap) \<le> length t"
    using chunk_loop_length_le [of t sz overlap 0] by (simp add: chunk_text_def)
  show "chunk_text t sz overlap = [] \<longleftrightarrow> t = []" by (rule chunk_text_nonempty)
  show "length (build_documents pages sz overlap) =
           sum_list (map (\<lambda>p. length (chunk_text (pg_text p) sz overlap)) pages)"
    by (simp add: build_documents_concat length_concat page_documents_def comp_def)
qed

text \<open>C5 as amended, at \<open>size = 0\<close>, \<open>overlap = 0\<close> and a page with the text \<open>ab\<close>.\<close>

theorem chunk_text_no_validation_witness:
  "(0::int) \<le> 0 \<and> length (chunk_text ''ab'' 0 0) \<le> length ''ab'' \<and> chunk_text ''ab'' 0 0 \<noteq> [] \<and>
   length (build_documents [\<lparr>pg_page = 1, pg_text = ''ab'', pg_source = ''f.pdf''\<rparr>] 0 0) =
     length (chunk_text ''ab'' 0 0)"
  using chunk_text_no_validation [of 0 0 "''ab''" "[\<lparr>pg_page = 1, pg_text = ''ab'', pg_source = ''f.pdf''\<rparr>]"]
  by simp

text \<open>
  Claim C5 as stated fails: with \<open>size = 0\<close> and \<open>overlap = 0\<close> the operation does not fail;
  a page with the text \<open>ab\<close> gives two documents with empty content.
\<close>
theorem chunk_invalid_size_counterexample:
  "(0::int) \<le> 0 \<and>
   build_documents [\<lparr>pg_page = 1, pg_text = ''ab'', pg_source = ''f.pdf''\<rparr>] 0 0 =
     [\<lparr>page_content = '''', metadata = \<lparr>md_page = 1, md_source = ''f.pdf'', chunk_id = ''f.pdf-p1-c0''\<rparr>\<rparr>,
      \<lparr>page_content = '''', metadata = \<lparr>md_page = 1, md_source = ''f.pdf'', chunk_id = ''f.pdf-p1-c1''\<rparr>\<rparr>]"
  by code_simp

lemma digit_char_inj: "a < 10 \<Longrightarrow> b < 10 \<Longrightarrow> digit_char a = digit_char b \<Longrightarrow> a = b"
proof -
  assume a: "a < 10" and b: "b < 10" and e: "digit_char a = digit_char b"
  from e have "of_char (char_of (48 + a)) = (of_char (char_of (48 + b)) :: nat)"
    by (simp add: digit_char_def)
  then show "a = b" using a b by (simp add: of_char_of)
qed

lemma str_nat_nonempty: "str_nat n \<noteq> []"
  by (subst str_nat.simps) simp

lemma str_nat_inj: "str_nat n = str_nat m \<Longrightarrow> n = m"
proof (induction n arbitrary: m rule: str_nat.induct)
  case (1 n)
  show ?case
  proof (cases "n < 10")
    case n: True
    show ?thesis
    proof (cases "m < 10")
      case True
      then show ?thesis using n "1.prems"
        by (simp add: str_nat.simps [of n] str_nat.simps [of m] digit_char_inj)
    next
      case False
      then show ?thesis using n "1.prems" str_nat_nonempty [of "m div 10"]
        by (simp add: str_nat.simps [of n] str_nat.simps [of m])
    qed
  next
    case n: False
    show ?thesis
    proof (cases "m < 10")
      case True
      then show ?thesis using n "1.prems" str_nat_nonempty [of "n div 10"]
        by (simp add: str_nat.simps [of n] str_nat.simps [of m])
    next
      case False
      with n "1.prems" have e: "str_nat (n div 10) = str_nat (m div 10)"
        and d: "digit_char (n mod 10) = digit_char (m mod 10)"
        by (simp_all add: str_nat.simps [of n] str_nat.simps [of m])
      from "1.IH" [OF n e] have "n div 10 = m div 10" .
      moreover from d have "n mod 10 = m mod 10" by (intro digit_char_inj) simp_all
      ultimately show ?thesis by (metis div_mult_mod_eq)
    qed
  qed
qed

lemma format_chunk_id_inj: "format_chunk_id src pg i = format_chunk_id src pg j \<Longrightarrow> i = j"
  by (auto simp: format_chunk_id_def py_str_def dest: str_nat_inj)

lemma page_documents_nth:
  "page_documents p sz ov =
     map (\<lambda>i. \<lparr>page_content = chunk_text (pg_text p) sz ov ! i,
                metadata = \<lparr>md_page = pg_page p, md_source = pg_source p,
                  chunk_id = pg_source p @ ''-p'' @ py_str (pg_page p) @ ''-c'' @ py_str (int i)\<rparr>\<rparr>)
       [0..<length (chunk_text (pg_text p) sz ov)]"
  by (rule nth_equalityI)
     (simp_all add: page_documents_def chunk_document_def format_chunk_id_def nth_enumerate_eq)

lemma doc_key_page_documents:
  "map doc_key (page_documents p sz ov) =
     map (\<lambda>i. (pg_source p, pg_page p, format_chunk_id (pg_source p) (pg_page p) i))
       [0..<length (chunk_text (pg_text p) sz ov)]"
  by (rule nth_equalityI)
     (simp_all add: page_documents_def chunk_document_def doc_key_def nth_enumerate_eq)

lemma distinct_page_documents: "distinct (map doc_key (page_documents p sz ov))"
  unfolding doc_key_page_documents
  by (auto simp: distinct_map inj_on_def dest: format_chunk_id_inj)

lemma set_doc_key_page_documents:
  "k \<in> set (map doc_key (page_documents p sz ov)) \<Longrightarrow> fst k = pg_source p \<and> fst (snd k) = pg_page p"
  unfolding doc_key_page_documents by auto

lemma distinct_keys_concat:
  "distinct (map (\<lambda>p. (pg_source p, pg_page p)) pages) \<Longrightarrow>
   distinct (concat (map (\<lambda>p. map doc_key (page_documents p sz ov)) pages))"
proof (induction pages)
  case Nil
  then show ?case by simp
next
  case (Cons p ps)
  have disj: "set (map doc_key (page_documents p sz ov)) \<inter>
              set (concat (map (\<lambda>p. map doc_key (page_documents p sz ov)) ps)) = {}"
  proof (rule ccontr)
    assume "\<not> ?thesis"
    then obtain k where k1: "k \<in> set (map doc_key (page_documents p sz ov))"
      and kc: "k \<in> set (concat (map (\<lambda>p. map doc_key (page_documents p sz ov)) ps))"
      by blast
    from kc obtain q where q: "q \<in> set ps"
      and k2: "k \<in> set (map doc_key (page_documents q sz ov))"
      by auto
    from set_doc_key_page_documents [OF k1] set_doc_key_page_documents [OF k2]
    have "(pg_source p, pg_page p) = (pg_source q, pg_page q)" by simp
    with q Cons.prems show False by (auto simp: image_iff)
  qed
  from Cons have "distinct (concat (map (\<lambda>p. map doc_key (page_documents p sz ov)) ps))" by simp
  with disj distinct_page_documents [of p sz ov] show ?case by simp
qed

text \<open>
  Claim C9, as amended. Every document that \<^verbatim>\<open>build_documents\<close> emits for the chunk at
  zero-based position \<open>i\<close> of a page has the \<open>chunk_id\<close> \<^verbatim>\<open>{source}-p{page}-c{i}\<close>; the
  documents, and with them the \<open>chunk_id\<close> sequence, are a function of the input alone. When
  no \<open>(source, page)\<close> pair occurs on two pages of the input, no two emitted documents
  share \<open>source\<close>, \<open>page\<close> and \<open>chunk_id\<close>.
\<close>
theorem chunk_id_format_unique:
  "build_documents pages sz ov =
     concat (map (\<lambda>p. map (\<lambda>i. \<lparr>page_content = chunk_text (pg_text p) sz ov ! i,
                metadata = \<lparr>md_page = pg_page p, md_source = pg_source p,
                  chunk_id = pg_source p @ ''-p'' @ py_str (pg_page p) @ ''-c'' @ py_str (int i)\<rparr>\<rparr>)
       [0..<length (chunk_text (pg_text p) sz ov)]) pages) \<and>
   (distinct (map (\<lambda>p. (pg_source p, pg_page p)) pages) \<longrightarrow>
      distinct (map doc_key (build_documents pages sz ov)))"
proof (intro conjI impI)
  show "build_documents pages sz ov =
     concat (map (\<lambda>p. map (\<lambda>i. \<lparr>page_content = chunk_text (pg_text p) sz ov ! i,
                metadata = \<lparr>md_page = pg_page p, md_source = pg_source p,
                  chunk_id = pg_source p @ ''-p'' @ py_str (pg_page p) @ ''-c'' @ py_str (int i)\<rparr>\<rparr>)
       [0..<length (chunk_text (pg_text p) sz ov)]) pages)"
    by (simp only: build_documents_concat page_documents_nth)
next
  assume "distinct (map (\<lambda>p. (pg_source p, pg_page p)) pages)"
  from distinct_keys_concat [OF this, of sz ov]
  show "distinct (map doc_key (build_documents pages sz ov))"
    by (simp add: build_documents_concat map_concat comp_def)
qed

text \<open>
  Claim C9 as stated fails for an input with two pages of the same source and page number:
  the first chunks of both get the same \<open>chunk_id\<close>.
\<close>
theorem chunk_id_duplicate_pages_counterexample:
  "map doc_key (build_documents
      [\<lparr>pg_page = 1, pg_text = ''a'', pg_source = ''f.pdf''\<rparr>,
       \<lparr>pg_page = 1, pg_text = ''b'', pg_source = ''f.pdf''\<rparr>] 1000 200) =
     [(''f.pdf'', 1, ''f.pdf-p1-c0''), (''f.pdf'', 1, ''f.pdf-p1-c0'')] \<and>
   map page_content (build_documents
      [\<lparr>pg_page = 1, pg_text = ''a'', pg_source = ''f.pdf''\<rparr>,
       \<lparr>pg_page = 1, pg_text = ''b'', pg_source = ''f.pdf''\<rparr>] 1000 200) = [''a'', ''b'']"
  by code_simp

text \<open>C9 on two pages of one source, with \<open>size = 3\<close> and \<open>overlap = 2\<close>.\<close>
theorem chunk_id_format_unique_witness:
  "distinct (map (\<lambda>p. (pg_source p, pg_page p))
      [\<lparr>pg_page = 1, pg_text = ''abcde'', pg_source = ''f.pdf''\<rparr>,
       \<lparr>pg_page = 2, pg_text = ''xy'', pg_source = ''f.pdf''\<rparr>]) \<and>
   distinct (map doc_key (build_documents
      [\<lparr>pg_page = 1, pg_text = ''abcde'', pg_source = ''f.pdf''\<rparr>,
       \<lparr>pg_page = 2, pg_text = ''xy'', pg_source = ''f.pdf''\<rparr>] 3 2)) \<and>
   map (\<lambda>d. chunk_id (metadata d)) (build_documents
      [\<lparr>pg_page = 1, pg_text = ''abcde'', pg_source = ''f.pdf''\<rparr>,
       \<lparr>pg_page = 2, pg_text = ''xy'', pg_source = ''f.pdf''\<rparr>] 3 2) =
     [''f.pdf-p1-c0'', ''f.pdf-p1-c1'', ''f.pdf-p1-c2'', ''f.pdf-p2-c0'']"
proof -
  let ?pages = "[\<lparr>pg_page = 1, pg_text = ''abcde'', pg_source = ''f.pdf''\<rparr>,
       \<lparr>pg_page = 2, pg_text = ''xy'', pg_source = ''f.pdf''\<rparr>]"
  have d: "distinct (map (\<lambda>p. (pg_source p, pg_page p)) ?pages)" by simp
  have "distinct (map doc_key (build_documents ?pages 3 2))"
    using chunk_id_format_unique [of ?pages 3 2] d by blast
  moreover have "map (\<lambda>d. chunk_id (metadata d)) (build_documents ?pages 3 2) =
     [''f.pdf-p1-c0'', ''f.pdf-p1-c1'', ''f.pdf-p1-c2'', ''f.pdf-p2-c0'']"
    by code_simp
  ultimately show ?thesis using d by simp
qed

section \<open>Conversation history reconstruction\<close>

lemma history_step_acc:
  "history_step (p, acc) msg =
     (fst (history_step (p, []) msg), acc @ snd (history_step (p, []) msg))"
  by (simp add: history_step_def split: option.splits)

lemma history_fold_acc:
  "foldl history_step (p, acc) msgs =
     (fst (foldl history_step (p, []) msgs), acc @ snd (foldl history_step (p, []) msgs))"
proof (induction msgs arbitrary: p acc)
  case Nil
  then show ?case by simp
next
  case (Cons m ms)
  obtain p' delta where s: "history_step (p, []) m = (p', delta)"
    by (cases "history_step (p, []) m")
  have a: "history_step (p, acc) m = (p', acc @ delta)"
    using history_step_acc [of p acc m] s by simp
  show ?case
    using Cons.IH [of p' "acc @ delta"] Cons.IH [of p' delta] a s by simp
qed

lemma reconstruct_exchange:
  "reconstruct (stored @ \<lparr>role = ''user'', content = u, citations = cs\<rparr> #
                          \<lparr>role = ''assistant'', content = a, citations = cs'\<rparr> # rest) =
     reconstruct stored @ (u, a) # reconstruct rest"
proof -
  obtain p q where f: "foldl history_step (None, []) stored = (p, q)"
    by (cases "foldl history_step (None, []) stored")
  have "foldl history_step (None, []) (stored @ \<lparr>role = ''user'', content = u, citations = cs\<rparr> #
          \<lparr>role = ''assistant'', content = a, citations = cs'\<rparr> # rest) =
        foldl history_step (None, q @ [(u, a)]) rest"
    by (simp add: f history_step_def)
  then show ?thesis
    using history_fold_acc [of None "q @ [(u, a)]" rest] f by (simp add: reconstruct_def)
qed

lemma reconstruct_two_assistants:
  "reconstruct (stored @ \<lparr>role = ''assistant'', content = a, citations = cs\<rparr> #
                          \<lparr>role = ''assistant'', content = b, citations = cs'\<rparr> # rest) =
     reconstruct (stored @ \<lparr>role = ''assistant'', content = a, citations = cs\<rparr> # rest)"
proof -
  obtain p q where f: "foldl history_step (None, []) stored = (p, q)"
    by (cases "foldl history_step (None, []) stored")
  show ?thesis
    by (cases p) (simp_all add: reconstruct_def f history_step_def)
qed

lemma reconstruct_other_role:
  "r \<noteq> ''user'' \<Longrightarrow> r \<noteq> ''assistant'' \<Longrightarrow>
   reconstruct (stored @ \<lparr>role = r, content = c, citations = cs\<rparr> # rest) = reconstruct (stored @ rest)"
proof -
  assume r: "r \<noteq> ''user''" "r \<noteq> ''assistant''"
  obtain p q where f: "foldl history_step (None, []) stored = (p, q)"
    by (cases "foldl history_step (None, []) stored")
  show ?thesis using r by (simp add: reconstruct_def f history_step_def)
qed

text \<open>
  Claim C3. The reconstruction scans the entries in order with a pending user slot,
  starting empty. Wherever they stand in a log: a user entry directly followed by an
  assistant entry gives their pair, after the pairs of what precedes and before the pairs
  of what follows, which are reconstructed with an empty slot; a user entry directly
  followed by another user entry is overwritten; an assistant entry at the start of the
  log or directly after another assistant entry has no pending user and is dropped; a
  trailing user entry is dropped; an entry with any other role changes nothing. The same
  is stated of the single step of the loop. The three logs of the claim give the three
  results of the claim.
\<close>

theorem reconstruct_pairs:
  "reconstruct [] = [] \<and>
   reconstruct (stored @ \<lparr>role = ''user'', content = u, citations = cs\<rparr> #
                          \<lparr>role = ''assistant'', content = a, citations = cs'\<rparr> # rest) =
     reconstruct stored @ (u, a) # reconstruct rest \<and>
   reconstruct (stored @ \<lparr>role = ''user'', content = a, citations = cs\<rparr> #
                          \<lparr>role = ''user'', content = c, citations = cs'\<rparr> # rest) =
     reconstruct (stored @ \<lparr>role = ''user'', content = c, citations = cs'\<rparr> # rest) \<and>
   reconstruct (\<lparr>role = ''assistant'', content = x, citations = cs\<rparr> # rest) = reconstruct rest \<and>
   reconstruct (stored @ \<lparr>role = ''assistant'', content = a, citations = cs\<rparr> #
                          \<lparr>role = ''assistant'', content = b, citations = cs'\<rparr> # rest) =
     reconstruct (stored @ \<lparr>role = ''assistant'', content = a, citations = cs\<rparr> # rest) \<and>
   reconstruct (stored @ [\<lparr>role = ''user'', content = c, citations = cs\<rparr>]) = reconstruct stored \<and>
   (r \<noteq> ''user'' \<and> r \<noteq> ''assistant'' \<longrightarrow>
      reconstruct (stored @ \<lparr>role = r, content = c, citations = cs\<rparr> # rest) =
        reconstruct (stored @ rest)) \<and>
   history_step (pending, pairs) \<lparr>role = ''user'', content = c, citations = cs\<rparr> = (Some c, pairs) \<and>
   history_step (Some u, pairs) \<lparr>role = ''assistant'', content = c, citations = cs\<rparr> =
     (None, pairs @ [(u, c)]) \<and>
   history_step (None, pairs) \<lparr>role = ''assistant'', content = c, citations = cs\<rparr> = (None, pairs) \<and>
   reconstruct [\<lparr>role = ''user'', content = ''A'', citations = None\<rparr>,
                \<lparr>role = ''assistant'', content = ''B'', citations = Some []\<rparr>,
                \<lparr>role = ''user'', content = ''C'', citations = None\<rparr>,
                \<lparr>role = ''assistant'', content = ''D'', citations = Some []\<rparr>] =
     [(''A'', ''B''), (''C'', ''D'')] \<and>
   reconstruct [\<lparr>role = ''user'', content = ''A'', citations = None\<rparr>,
                \<lparr>role = ''user'', content = ''C'', citations = None\<rparr>,
                \<lparr>role = ''assistant'', content = ''D'', citations = Some []\<rparr>] = [(''C'', ''D'')] \<and>
   reconstruct [\<lparr>role = ''assistant'', content = ''X'', citations = Some []\<rparr>] = []"
proof -
  obtain p q where f: "foldl history_step (None, []) stored = (p, q)"
    by (cases "foldl history_step (None, []) stored")
  have "reconstruct (stored @ [\<lparr>role = ''user'', content = c, citations = cs\<rparr>]) = reconstruct stored"
    by (simp add: reconstruct_def f history_step_def)
  moreover have "reconstruct (stored @ \<lparr>role = ''user'', content = a, citations = cs\<rparr> #
                          \<lparr>role = ''user'', content = c, citations = cs'\<rparr> # rest) =
     reconstruct (stored @ \<lparr>role = ''user'', content = c, citations = cs'\<rparr> # rest)"
    by (simp add: reconstruct_def f history_step_def)
  moreover have "reconstruct (\<lparr>role = ''assistant'', content = x, citations = cs\<rparr> # rest) = reconstruct rest"
    by (simp add: reconstruct_def history_step_def)
  moreover note reconstruct_exchange [of stored u cs a cs' rest]
    reconstruct_two_assistants [of stored a cs b cs' rest]
    reconstruct_other_role [of r stored c cs rest]
  ultimately show ?thesis
    by (simp add: reconstruct_def history_step_def)
qed

text \<open>
  C3 on logs with three exchanges, with an assistant entry repeated, and with an entry of
  another role between a question and its answer.
\<close>

theorem reconstruct_pairs_witness:
  "reconstruct ([\<lparr>role = ''user'', content = ''A'', citations = None\<rparr>,
                 \<lparr>role = ''assistant'', content = ''B'', citations = Some []\<rparr>,
                 \<lparr>role = ''user'', content = ''C'', citations = None\<rparr>,
                 \<lparr>role = ''assistant'', content = ''D'', citations = Some []\<rparr>] @
                \<lparr>role = ''user'', content = ''E'', citations = None\<rparr> #
                \<lparr>role = ''assistant'', content = ''F'', citations = Some []\<rparr> # []) =
     [(''A'', ''B''), (''C'', ''D''), (''E'', ''F'')] \<and>
   reconstruct ([\<lparr>role = ''user'', content = ''A'', citations = None\<rparr>] @
                \<lparr>role = ''assistant'', content = ''B'', citations = Some []\<rparr> #
                \<lparr>role = ''assistant'', content = ''X'', citations = Some []\<rparr> # []) =
     [(''A'', ''B'')] \<and>
   ''system'' \<noteq> ''user'' \<and> ''system'' \<noteq> ''assistant'' \<and>
   reconstruct ([\<lparr>role = ''user'', content = ''A'', citations = None\<rparr>] @
                \<lparr>role = ''system'', content = ''S'', citations = None\<rparr> #
                [\<lparr>role = ''assistant'', content = ''B'', citations = Some []\<rparr>]) =
     [(''A'', ''B'')]"
proof -
  let ?A = "\<lparr>role = ''user'', content = ''A'', citations = None\<rparr>"
  let ?B = "\<lparr>role = ''assistant'', content = ''B'', citations = Some []\<rparr>"
  let ?C = "\<lparr>role = ''user'', content = ''C'', citations = None\<rparr>"
  let ?D = "\<lparr>role = ''assistant'', content = ''D'', citations = Some []\<rparr>"
  have 1: "reconstruct ([?A, ?B, ?C, ?D] @ \<lparr>role = ''user'', content = ''E'', citations = None\<rparr> #
                \<lparr>role = ''assistant'', content = ''F'', citations = Some []\<rparr> # []) =
     [(''A'', ''B''), (''C'', ''D''), (''E'', ''F'')]"
    using reconstruct_pairs [of "[?A, ?B, ?C, ?D]" "''E''" None "''F''" "Some []" "[]"]
    by simp
  have 2: "reconstruct ([?A] @ ?B # \<lparr>role = ''assistant'', content = ''X'', citations = Some []\<rparr> # []) =
     [(''A'', ''B'')]"
    using reconstruct_pairs [of "[?A]" _ "Some []" "''B''" "Some []" "[]" _ _ _ "''X''"]
      reconstruct_pairs [of "[]" "''A''" None "''B''" "Some []" "[]"]
    by simp
  have 3: "reconstruct ([?A] @ \<lparr>role = ''system'', content = ''S'', citations = None\<rparr> # [?B]) =
     [(''A'', ''B'')]"
    using reconstruct_pairs [where stored = "[?A]" and r = "''system''" and c = "''S''" and cs = None
        and rest = "[?B]"]
      reconstruct_pairs [of "[]" "''A''" None "''B''" "Some []" "[]"]
    by simp
  from 1 2 3 show ?thesis by simp
qed

section \<open>The page extractor\<close>

lemma extract_loop_pages:
  "map pg_page (fst (extract_loop fp i rs pages)) =
     map pg_page pages @ map int [i..<i + length (takeWhile is_extracted rs)]"
proof (induction fp i rs pages rule: extract_loop.induct)
  case (1 file_path i pages)
  then show ?case by simp
next
  case (2 file_path i rest pages)
  then show ?case by (simp add: is_extracted_def)
next
  case (3 file_path i r rest pages)
  let ?n = "length (takeWhile is_extracted rest)"
  have t: "takeWhile is_extracted (Extracted r # rest) = Extracted r # takeWhile is_extracted rest"
    by (simp add: is_extracted_def)
  have u: "[i..<i + Suc ?n] = i # [Suc i..<Suc i + ?n]"
    by (simp add: upt_conv_Cons del: upt_Suc)
  show ?case
    unfolding extract_loop.simps t length_Cons u "3.IH" by simp
qed

lemma extract_loop_raised:
  "snd (extract_loop fp i rs pages) = (\<not> list_all is_extracted rs)"
  by (induction fp i rs pages rule: extract_loop.induct) (simp_all add: is_extracted_def)

lemma extract_attempt_pages:
  "map pg_page (fst (extract_attempt fp opened pages)) =
     map pg_page pages @ map int [1..<Suc (appended opened)]"
  "snd (extract_attempt fp opened pages) = raised opened"
proof -
  show "map pg_page (fst (extract_attempt fp opened pages)) =
     map pg_page pages @ map int [1..<Suc (appended opened)]"
  proof (cases opened)
    case None
    then show ?thesis by (simp add: extract_attempt_def appended_def)
  next
    case (Some rs)
    then show ?thesis
      using extract_loop_pages [of fp 1 rs pages]
      by (simp add: extract_attempt_def appended_def del: upt_Suc)
  qed
  show "snd (extract_attempt fp opened pages) = raised opened"
    by (cases opened) (simp_all add: extract_attempt_def raised_def extract_loop_raised)
qed

lemma extract_page_numbers:
  "map pg_page (extract_text_by_page lib fp) =
     map int [1..<Suc (plumber_count lib)] @ map int [1..<Suc (pypdf_count lib)]"
proof -
  obtain pages b where a: "extract_attempt fp (plumber_pages lib) [] = (pages, b)"
    by (cases "extract_attempt fp (plumber_pages lib) []")
  from extract_attempt_pages [of fp "plumber_pages lib" "[]"] a
  have p: "map pg_page pages = map int [1..<Suc (plumber_count lib)]" and b: "b = raised (plumber_pages lib)"
    by (simp_all add: plumber_count_def del: upt_Suc)
  show ?thesis
  proof (cases "b \<and> pypdf_available lib")
    case True
    then have "extract_text_by_page lib fp = fst (extract_attempt fp (pypdf_pages lib) pages)"
      using a by (simp add: extract_text_by_page_def)
    moreover have "pypdf_count lib = appended (pypdf_pages lib)"
      using True b by (simp add: pypdf_count_def)
    ultimately show ?thesis
      using extract_attempt_pages(1) [of fp "pypdf_pages lib" pages] p by (simp del: upt_Suc)
  next
    case False
    then have "extract_text_by_page lib fp = pages"
      using a by (cases b) (auto simp add: extract_text_by_page_def)
    moreover have "pypdf_count lib = 0"
      using False b by (auto simp add: pypdf_count_def)
    ultimately show ?thesis using p by (simp del: upt_Suc)
  qed
qed

text \<open>
  Claim C10. \<^verbatim>\<open>extract_text_by_page\<close> returns a page list on every file (it is a total
  function without an error result). The list holds the pages pdfplumber appended before it
  raised, numbered from 1, followed by the pages PyPDF2 appended, numbered from 1 again,
  because the list is not reset between the two attempts. It is empty exactly when neither
  appended a page, and when both appended at least one, a page number occurs twice.
\<close>
theorem extract_never_raises_may_duplicate:
  "map pg_page (extract_text_by_page lib fp) =
     map int [1..<Suc (plumber_count lib)] @ map int [1..<Suc (pypdf_count lib)] \<and>
   (extract_text_by_page lib fp = [] \<longleftrightarrow> plumber_count lib = 0 \<and> pypdf_count lib = 0) \<and>
   (0 < plumber_count lib \<and> 0 < pypdf_count lib \<longrightarrow>
      \<not> distinct (map pg_page (extract_text_by_page lib fp)))"
proof (intro conjI impI)
  show n: "map pg_page (extract_text_by_page lib fp) =
     map int [1..<Suc (plumber_count lib)] @ map int [1..<Suc (pypdf_count lib)]"
    by (rule extract_page_numbers)
  have "(extract_text_by_page lib fp = []) = (map pg_page (extract_text_by_page lib fp) = [])" by simp
  also have "\<dots> = (plumber_count lib = 0 \<and> pypdf_count lib = 0)" unfolding n by auto
  finally show "extract_text_by_page lib fp = [] \<longleftrightarrow> plumber_count lib = 0 \<and> pypdf_count lib = 0" .
next
  assume "0 < plumber_count lib \<and> 0 < pypdf_count lib"
  then have "1 \<in> set (map int [1..<Suc (plumber_count lib)]) \<inter> set (map int [1..<Suc (pypdf_count lib)])"
    by (auto simp: image_iff)
  then show "\<not> distinct (map pg_page (extract_text_by_page lib fp))"
    unfolding extract_page_numbers by (auto simp only: distinct_append)
qed

lemma example_pdf_counts: "plumber_count example_pdf = 1 \<and> pypdf_count example_pdf = 2"
  by (simp add: plumber_count_def pypdf_count_def appended_def raised_def example_pdf_def is_extracted_def)

text \<open>C10 on a file where pdfplumber reads one page and raises on the second, and PyPDF2
  reads two: the page numbers returned are 1, 1, 2.\<close>
theorem extract_never_raises_may_duplicate_witness:
  "0 < plumber_count example_pdf \<and> 0 < pypdf_count example_pdf \<and>
   map pg_page (extract_text_by_page example_pdf ''/uploads/scan.pdf'') = [1, 1, 2] \<and>
   \<not> distinct (map pg_page (extract_text_by_page example_pdf ''/uploads/scan.pdf''))"
proof -
  have c: "0 < plumber_count example_pdf \<and> 0 < pypdf_count example_pdf"
    by (simp add: example_pdf_counts)
  have "\<not> distinct (map pg_page (extract_text_by_page example_pdf ''/uploads/scan.pdf''))"
    using extract_never_raises_may_duplicate [of example_pdf "''/uploads/scan.pdf''"] c by blast
  moreover have "map pg_page (extract_text_by_page example_pdf ''/uploads/scan.pdf'') = [1, 1, 2]"
    using extract_never_raises_may_duplicate [of example_pdf "''/uploads/scan.pdf''"]
    by (simp add: example_pdf_counts upt_rec)
  ultimately show ?thesis using c by simp
qed

section \<open>The vector store adapter\<close>

lemma store_tag_strip: "py_strip (store_tag b) = store_tag b"
  by (cases b) (simp_all add: store_tag_def py_strip_def py_isspace_def)

lemma try_faiss_Inr:
  "try_faiss lib docs d = (d', Inr s) \<Longrightarrow>
   \<exists>ix d1. faiss_from_documents lib docs = Inr ix \<and> faiss_save_local lib ix d = (d1, None) \<and>
           d' = write_store_type d1 ''faiss'' \<and> s = Store FAISS ix"
  by (auto simp: try_faiss_def split: sum.splits prod.splits option.splits)

lemma try_chroma_Inr:
  "try_chroma lib docs d = (d', Inr s) \<Longrightarrow>
   \<exists>ix d1 d2. chroma_from_documents lib docs d = (d1, Inr ix) \<and> chroma_persist lib ix d1 = (d2, None) \<and>
           d' = write_store_type d2 ''chroma'' \<and> s = Store Chroma ix"
  by (auto simp: try_chroma_def split: sum.splits prod.splits option.splits)

lemma docarray_fallback_Inr:
  "docarray_fallback lib docs d = (d', Inr s) \<Longrightarrow>
   \<exists>ix. docarray_from_documents lib docs = Inr ix \<and>
        d' = write_store_type (d(''docs.json'' \<mapsto> json_dump lib (map raw_of docs))) ''docarray'' \<and>
        s = Store DocArray ix"
  by (auto simp: docarray_fallback_def Let_def split: sum.splits)

lemma try_faiss_Inl:
  "snd (try_faiss lib docs d) = Inl e \<Longrightarrow> py_lower prefer = ''faiss'' \<Longrightarrow>
   faiss_skipped_or_raised lib docs prefer d (fst (try_faiss lib docs d))"
  by (auto simp: try_faiss_def faiss_skipped_or_raised_def split: sum.splits prod.splits option.splits)

lemma try_chroma_Inl:
  "snd (try_chroma lib docs d0) = Inl e \<Longrightarrow> chroma_raised lib docs d0 (fst (try_chroma lib docs d0))"
  by (auto simp: try_chroma_def chroma_raised_def split: sum.splits prod.splits option.splits)

lemma raw_of_eq: "raw_of = (\<lambda>doc. \<lparr>raw_page_content = page_content doc, raw_metadata = metadata doc\<rparr>)"
  by (rule ext) (simp add: raw_of_def)

lemma doc_of_eq: "doc_of = (\<lambda>r. \<lparr>page_content = raw_page_content r, metadata = raw_metadata r\<rparr>)"
  by (rule ext) (simp add: doc_of_def)

text \<open>The three ways a call returns a store.\<close>

lemma build_cases:
  assumes "out_result (build_and_save_store lib docs d prefer) = Inr s"
  obtains
    (faiss) ix d1 where "py_lower prefer = ''faiss''"
      "faiss_from_documents lib docs = Inr ix" "faiss_save_local lib ix d = (d1, None)"
      "build_and_save_store lib docs d prefer =
         \<lparr>out_dir = write_store_type d1 ''faiss'', out_result = Inr (Store FAISS ix), attempts = [FAISS]\<rparr>"
      "s = Store FAISS ix"
  | (chroma) d0 ix d1 d2 where
      "d0 = (if py_lower prefer = ''faiss'' then fst (try_faiss lib docs d) else d)"
      "faiss_skipped_or_raised lib docs prefer d d0"
      "chroma_from_documents lib docs d0 = (d1, Inr ix)" "chroma_persist lib ix d1 = (d2, None)"
      "build_and_save_store lib docs d prefer =
         \<lparr>out_dir = write_store_type d2 ''chroma'', out_result = Inr (Store Chroma ix),
          attempts = (if py_lower prefer = ''faiss'' then [FAISS] else []) @ [Chroma]\<rparr>"
      "s = Store Chroma ix"
  | (docarray) d0 d1 ix where
      "d0 = (if py_lower prefer = ''faiss'' then fst (try_faiss lib docs d) else d)"
      "d1 = fst (try_chroma lib docs d0)"
      "faiss_skipped_or_raised lib docs prefer d d0" "chroma_raised lib docs d0 d1"
      "docarray_from_documents lib docs = Inr ix"
      "build_and_save_store lib docs d prefer =
         \<lparr>out_dir = write_store_type (d1(''docs.json'' \<mapsto> json_dump lib (map raw_of docs))) ''docarray'',
          out_result = Inr (Store DocArray ix),
          attempts = (if py_lower prefer = ''faiss'' then [FAISS] else []) @ [Chroma, DocArray]\<rparr>"
      "s = Store DocArray ix"
proof -
  let ?tried = "if py_lower prefer = ''faiss'' then [FAISS] else []"
  let ?d0 = "if py_lower prefer = ''faiss'' then fst (try_faiss lib docs d) else d"
  show thesis
  proof (cases "py_lower prefer = ''faiss'' \<and> (\<exists>s'. snd (try_faiss lib docs d) = Inr s')")
    case True
    then obtain d' s' where t: "try_faiss lib docs d = (d', Inr s')" by (cases "try_faiss lib docs d") auto
    with True assms have b: "build_and_save_store lib docs d prefer =
        \<lparr>out_dir = d', out_result = Inr s', attempts = [FAISS]\<rparr>" and "s' = s"
      by (simp_all add: build_and_save_store_def)
    from try_faiss_Inr [OF t] b True \<open>s' = s\<close> show thesis by (auto intro: faiss)
  next
    case False
    then have b: "build_and_save_store lib docs d prefer = chroma_then_docarray lib docs ?d0 ?tried"
      by (cases "try_faiss lib docs d") (auto simp: build_and_save_store_def split: sum.splits)
    have fr: "faiss_skipped_or_raised lib docs prefer d ?d0"
    proof (cases "py_lower prefer = ''faiss''")
      case True
      with False obtain e where "snd (try_faiss lib docs d) = Inl e"
        by (cases "snd (try_faiss lib docs d)") auto
      from try_faiss_Inl [OF this True] True show ?thesis by simp
    next
      case False
      then show ?thesis by (simp add: faiss_skipped_or_raised_def)
    qed
    show thesis
    proof (cases "try_chroma lib docs ?d0")
      case (Pair d1 r)
      show thesis
      proof (cases r)
        case (Inr s')
        with Pair b assms have b': "build_and_save_store lib docs d prefer =
            \<lparr>out_dir = d1, out_result = Inr s', attempts = ?tried @ [Chroma]\<rparr>" and "s' = s"
          by (simp_all add: chroma_then_docarray_def)
        from Pair Inr have "try_chroma lib docs ?d0 = (d1, Inr s')" by simp
        from try_chroma_Inr [OF this] b' \<open>s' = s\<close> fr show thesis
          by (auto intro: chroma [OF refl])
      next
        case (Inl e)
        obtain d2 r2 where f: "docarray_fallback lib docs d1 = (d2, r2)"
          by (cases "docarray_fallback lib docs d1")
        with Pair Inl b assms have b': "build_and_save_store lib docs d prefer =
            \<lparr>out_dir = d2, out_result = r2, attempts = ?tried @ [Chroma, DocArray]\<rparr>" and "r2 = Inr s"
          by (simp_all add: chroma_then_docarray_def)
        from f \<open>r2 = Inr s\<close> have "docarray_fallback lib docs d1 = (d2, Inr s)" by simp
        moreover have "chroma_raised lib docs ?d0 d1"
          using try_chroma_Inl [of lib docs ?d0 e] Pair Inl by simp
        ultimately show thesis
          using docarray_fallback_Inr [of lib docs d1 d2 s] b' Pair \<open>r2 = Inr s\<close> fr
          by (auto intro: docarray [OF refl, of d1])
      qed
    qed
  qed
qed

text \<open>
  Claim C1. When \<^verbatim>\<open>build_and_save_store\<close> returns a store, one of three things happened,
  in terms of the library calls. FAISS was the preference, building and saving the FAISS
  index succeeded, and the marker \<open>faiss\<close> was written into the directory the save left. Or
  FAISS was skipped (another preference) or raised, then building and persisting the Chroma
  store succeeded on the directory FAISS left, and the marker \<open>chroma\<close> was written. Or
  FAISS was skipped or raised, Chroma raised, the in-memory index was built, and the
  directory Chroma left got \<^verbatim>\<open>docs.json\<close> with the serialised records of the documents
  themselves (content and metadata, no vectors) and the marker \<open>docarray\<close>. So the
  backends are attempted in the fixed order, a later one only after the earlier ones
  failed, and the marker names the backend of the returned store, whose payload was
  written.
\<close>

theorem build_marker_names_backend:
  assumes "out_result (build_and_save_store lib documents d prefer) = Inr s"
  shows "attempts (build_and_save_store lib documents d prefer) \<noteq> [] \<and>
         attempts (build_and_save_store lib documents d prefer) =
           take (length (attempts (build_and_save_store lib documents d prefer))) (backend_order prefer) \<and>
         last (attempts (build_and_save_store lib documents d prefer)) = store_backend s \<and>
         out_dir (build_and_save_store lib documents d prefer) ''store_type.txt'' =
           Some (store_tag (store_backend s)) \<and>
         ((\<exists>ix d1. py_lower prefer = ''faiss'' \<and>
              faiss_from_documents lib documents = Inr ix \<and>
              faiss_save_local lib ix d = (d1, None) \<and>
              s = Store FAISS ix \<and>
              attempts (build_and_save_store lib documents d prefer) = [FAISS] \<and>
              out_dir (build_and_save_store lib documents d prefer) =
                d1(''store_type.txt'' \<mapsto> ''faiss'')) \<or>
          (\<exists>d0 ix d1 d2. faiss_skipped_or_raised lib documents prefer d d0 \<and>
              chroma_from_documents lib documents d0 = (d1, Inr ix) \<and>
              chroma_persist lib ix d1 = (d2, None) \<and>
              s = Store Chroma ix \<and>
              attempts (build_and_save_store lib documents d prefer) =
                (if py_lower prefer = ''faiss'' then [FAISS, Chroma] else [Chroma]) \<and>
              out_dir (build_and_save_store lib documents d prefer) =
                d2(''store_type.txt'' \<mapsto> ''chroma'')) \<or>
          (\<exists>d0 d1 ix. faiss_skipped_or_raised lib documents prefer d d0 \<and>
              chroma_raised lib documents d0 d1 \<and>
              docarray_from_documents lib documents = Inr ix \<and>
              s = Store DocArray ix \<and>
              attempts (build_and_save_store lib documents d prefer) =
                (if py_lower prefer = ''faiss'' then [FAISS, Chroma, DocArray] else [Chroma, DocArray]) \<and>
              out_dir (build_and_save_store lib documents d prefer) =
                d1(''docs.json'' \<mapsto>
                     json_dump lib (map (\<lambda>doc. \<lparr>raw_page_content = page_content doc,
                                                    raw_metadata = metadata doc\<rparr>) documents),
                   ''store_type.txt'' \<mapsto> ''docarray'')))"
  using assms
proof (cases rule: build_cases)
  case (faiss ix d1)
  then show ?thesis
    by (simp add: backend_order_def store_backend_def store_tag_def write_store_type_def)
next
  case (chroma d0 ix d1 d2)
  have "\<exists>d0 ix d1 d2. faiss_skipped_or_raised lib documents prefer d d0 \<and>
              chroma_from_documents lib documents d0 = (d1, Inr ix) \<and>
              chroma_persist lib ix d1 = (d2, None) \<and>
              s = Store Chroma ix \<and>
              attempts (build_and_save_store lib documents d prefer) =
                (if py_lower prefer = ''faiss'' then [FAISS, Chroma] else [Chroma]) \<and>
              out_dir (build_and_save_store lib documents d prefer) =
                d2(''store_type.txt'' \<mapsto> ''chroma'')"
    using chroma(2-6) by (intro exI [of _ d0] exI [of _ ix] exI [of _ d1] exI [of _ d2])
      (simp add: write_store_type_def)
  then show ?thesis using chroma(5,6)
    by (simp add: backend_order_def store_backend_def store_tag_def write_store_type_def)
next
  case (docarray d0 d1 ix)
  have "\<exists>d0 d1 ix. faiss_skipped_or_raised lib documents prefer d d0 \<and>
              chroma_raised lib documents d0 d1 \<and>
              docarray_from_documents lib documents = Inr ix \<and>
              s = Store DocArray ix \<and>
              attempts (build_and_save_store lib documents d prefer) =
                (if py_lower prefer = ''faiss'' then [FAISS, Chroma, DocArray] else [Chroma, DocArray]) \<and>
              out_dir (build_and_save_store lib documents d prefer) =
                d1(''docs.json'' \<mapsto>
                     json_dump lib (map (\<lambda>doc. \<lparr>raw_page_content = page_content doc,
                                                    raw_metadata = metadata doc\<rparr>) documents),
                   ''store_type.txt'' \<mapsto> ''docarray'')"
    using docarray(3-7) by (intro exI [of _ d0] exI [of _ d1] exI [of _ ix])
      (simp add: write_store_type_def raw_of_eq)
  then show ?thesis using docarray(6,7)
    by (simp add: backend_order_def store_backend_def store_tag_def write_store_type_def)
qed

lemma doc_of_raw_of: "map doc_of (map raw_of docs) = docs"
proof -
  have "doc_of (raw_of x) = x" for x by (cases x) (simp add: doc_of_def raw_of_def)
  then show ?thesis by (simp add: comp_def)
qed

lemma doc_of_raw_of_comp: "map (doc_of \<circ> raw_of) docs = docs"
  using doc_of_raw_of [of docs] by simp

lemma example_dump_Nil: "example_dump [] = []"
  by (simp add: example_dump_def)

lemma example_dump_append: "example_dump (xs @ ys) = example_dump xs @ example_dump ys"
  by (simp add: example_dump_def)

lemma example_dump_a: "example_dump (map raw_of example_docs_a) = ''a.pdf-p1-c0:first;''"
  by code_simp

lemma example_dump_b: "example_dump (map raw_of example_docs_b) = ''b.pdf-p1-c0:second;''"
  by code_simp

lemma example_load_known:
  "example_load [] = Inr []"
  "example_load ''a.pdf-p1-c0:first;'' = Inr (map raw_of example_docs_a)"
  "example_load ''b.pdf-p1-c0:second;'' = Inr (map raw_of example_docs_b)"
  "example_load ''a.pdf-p1-c0:first;b.pdf-p1-c0:second;'' = Inr (map raw_of (example_docs_a @ example_docs_b))"
  by (simp_all add: example_load_def example_known_def example_dump_Nil example_dump_a example_dump_b
      example_dump_append)


lemma example_build_eq:
  "example_build =
     \<lparr>out_dir = example_empty_dir(''docs.json'' \<mapsto> ''a.pdf-p1-c0:first;'', ''store_type.txt'' \<mapsto> ''docarray''),
      out_result = Inr (Store DocArray example_docs_a),
      attempts = [Chroma, DocArray]\<rparr>"
  by (simp add: example_build_def build_and_save_store_def chroma_then_docarray_def try_chroma_def
      docarray_fallback_def example_libraries_def py_lower_def lower_char_def write_store_type_def
      Let_def example_dump_a)

lemma example_dir_eq:
  "example_dir = example_empty_dir(''docs.json'' \<mapsto> ''a.pdf-p1-c0:first;'', ''store_type.txt'' \<mapsto> ''docarray'')"
  by (simp add: example_dir_def example_build_eq)

lemma example_rebuild_eq:
  "example_rebuild =
     \<lparr>out_dir = example_dir(''index.faiss'' \<mapsto> ''vectors'',
                            ''index.pkl'' \<mapsto> ''b.pdf-p1-c0:second;'',
                            ''store_type.txt'' \<mapsto> ''faiss''),
      out_result = Inr (Store FAISS example_docs_b),
      attempts = [FAISS]\<rparr>"
  by (simp add: example_rebuild_def build_and_save_store_def try_faiss_def
      example_libraries_def py_lower_def lower_char_def write_store_type_def example_dump_b)

lemma example_chroma_build_eq:
  "example_chroma_build =
     \<lparr>out_dir = example_empty_dir(''chroma.sqlite3'' \<mapsto> ''a.pdf-p1-c0:first;'', ''store_type.txt'' \<mapsto> ''chroma''),
      out_result = Inr (Store Chroma example_docs_a),
      attempts = [FAISS, Chroma]\<rparr>"
  by (simp add: example_chroma_build_def build_and_save_store_def try_faiss_def chroma_then_docarray_def
      try_chroma_def example_chroma_libraries_def example_collection_def example_empty_dir_def
      py_lower_def lower_char_def write_store_type_def example_dump_a)


text \<open>C1 on a build that ends in the fallback, on one that FAISS serves, and on one that
  Chroma serves after FAISS raised.\<close>

theorem build_marker_names_backend_witness:
  "out_result example_build = Inr (Store DocArray example_docs_a) \<and>
   attempts example_build = [Chroma, DocArray] \<and>
   out_dir example_build ''store_type.txt'' = Some ''docarray'' \<and>
   out_dir example_build ''docs.json'' = Some ''a.pdf-p1-c0:first;'' \<and>
   out_result example_rebuild = Inr (Store FAISS example_docs_b) \<and>
   attempts example_rebuild = [FAISS] \<and>
   out_dir example_rebuild ''store_type.txt'' = Some ''faiss'' \<and>
   out_result example_chroma_build = Inr (Store Chroma example_docs_a) \<and>
   attempts example_chroma_build = [FAISS, Chroma] \<and>
   out_dir example_chroma_build ''store_type.txt'' = Some ''chroma''"
proof -
  have r1: "out_result (build_and_save_store example_libraries example_docs_a example_empty_dir ''chroma'') =
     Inr (Store DocArray example_docs_a)"
    using example_build_eq by (simp add: example_build_def)
  have r2: "out_result (build_and_save_store example_libraries example_docs_b example_dir ''faiss'') =
     Inr (Store FAISS example_docs_b)"
    using example_rebuild_eq by (simp add: example_rebuild_def)
  have r3: "out_result (build_and_save_store example_chroma_libraries example_docs_a example_empty_dir ''faiss'') =
     Inr (Store Chroma example_docs_a)"
    using example_chroma_build_eq by (simp add: example_chroma_build_def)
  note t1 = build_marker_names_backend [OF r1, folded example_build_def]
  note t2 = build_marker_names_backend [OF r2, folded example_rebuild_def]
  note t3 = build_marker_names_backend [OF r3, folded example_chroma_build_def]
  have j: "json_dump example_libraries = example_dump" by (simp add: example_libraries_def)
  from t1 have "\<exists>d1. out_dir example_build =
      d1(''docs.json'' \<mapsto> json_dump example_libraries (map raw_of example_docs_a),
         ''store_type.txt'' \<mapsto> ''docarray'')"
    unfolding raw_of_eq by auto
  then have "out_dir example_build ''docs.json'' = Some ''a.pdf-p1-c0:first;''"
    by (auto simp add: j example_dump_a)
  moreover from t1 have "attempts example_build = [Chroma, DocArray]"
    by (auto simp add: py_lower_def lower_char_def)
  moreover from t1 have "out_dir example_build ''store_type.txt'' = Some ''docarray''"
    by (simp add: store_backend_def store_tag_def)
  moreover from t2 have "attempts example_rebuild = [FAISS]" by auto
  moreover from t2 have "out_dir example_rebuild ''store_type.txt'' = Some ''faiss''"
    by (simp add: store_backend_def store_tag_def)
  moreover from t3 have "attempts example_chroma_build = [FAISS, Chroma]"
    by (auto simp add: py_lower_def lower_char_def)
  moreover from t3 have "out_dir example_chroma_build ''store_type.txt'' = Some ''chroma''"
    by (simp add: store_backend_def store_tag_def)
  ultimately show ?thesis
    using r1 r2 r3 by (simp add: example_build_def example_rebuild_def example_chroma_build_def)
qed

text \<open>
  Claim C4, as amended. When the marker file is there, its stripped content alone decides
  which loader runs, and no other loader is tried. With \<open>faiss\<close> the load is what
  \<^verbatim>\<open>FAISS.load_local\<close> gives (called again without the keyword argument when it raised
  \<^verbatim>\<open>TypeError\<close>); with \<open>chroma\<close> it is what the \<^verbatim>\<open>Chroma\<close> constructor gives; with \<open>docarray\<close>
  it fails with \<^verbatim>\<open>FileNotFoundError\<close> when \<^verbatim>\<open>docs.json\<close> is absent, with the reader's exception
  when its content is not a record list, with the index builder's exception when that
  raises, and it is the index over the recorded documents otherwise. A store that is
  returned is of the backend the marker names, and a failure carries the loader's own
  exception.
\<close>

theorem load_dispatches_on_marker:
  assumes "d ''store_type.txt'' = Some c"
  shows "(py_strip c = ''faiss'' \<longrightarrow>
           (\<forall>ix. faiss_load_local lib True d = Inr ix \<longrightarrow>
                 load_store lib d = (d, Inr (Store FAISS ix))) \<and>
           (\<forall>e. faiss_load_local lib True d = Inl e \<and> e \<noteq> TypeError \<longrightarrow>
                 load_store lib d = (d, Inl e)) \<and>
           (faiss_load_local lib True d = Inl TypeError \<longrightarrow>
              (\<forall>ix. faiss_load_local lib False d = Inr ix \<longrightarrow>
                    load_store lib d = (d, Inr (Store FAISS ix))) \<and>
              (\<forall>e. faiss_load_local lib False d = Inl e \<longrightarrow> load_store lib d = (d, Inl e)))) \<and>
         (py_strip c = ''chroma'' \<longrightarrow>
           (\<forall>d1 ix. chroma_open lib d = (d1, Inr ix) \<longrightarrow>
                 load_store lib d = (d1, Inr (Store Chroma ix))) \<and>
           (\<forall>d1 e. chroma_open lib d = (d1, Inl e) \<longrightarrow> load_store lib d = (d1, Inl e))) \<and>
         (py_strip c = ''docarray'' \<longrightarrow>
           (d ''docs.json'' = None \<longrightarrow> load_store lib d = (d, Inl FileNotFoundError)) \<and>
           (\<forall>j e. d ''docs.json'' = Some j \<and> json_load lib j = Inl e \<longrightarrow>
                 load_store lib d = (d, Inl e)) \<and>
           (\<forall>j raw e. d ''docs.json'' = Some j \<and> json_load lib j = Inr raw \<and>
                 docarray_from_documents lib
                   (map (\<lambda>r. \<lparr>page_content = raw_page_content r, metadata = raw_metadata r\<rparr>) raw) = Inl e \<longrightarrow>
                 load_store lib d = (d, Inl e)) \<and>
           (\<forall>j raw ix. d ''docs.json'' = Some j \<and> json_load lib j = Inr raw \<and>
                 docarray_from_documents lib
                   (map (\<lambda>r. \<lparr>page_content = raw_page_content r, metadata = raw_metadata r\<rparr>) raw) = Inr ix \<longrightarrow>
                 load_store lib d = (d, Inr (Store DocArray ix))))"
proof (intro conjI impI allI)
  note defs = load_store_def read_store_type_def assms as_store_def faiss_load_def docarray_rebuild_def
    doc_of_eq
  { fix ix assume "py_strip c = ''faiss''" "faiss_load_local lib True d = Inr ix"
    then show "load_store lib d = (d, Inr (Store FAISS ix))" by (simp add: defs) }
  { fix e assume "py_strip c = ''faiss''" "faiss_load_local lib True d = Inl e \<and> e \<noteq> TypeError"
    then show "load_store lib d = (d, Inl e)" by (cases e) (simp_all add: defs) }
  { fix ix assume "py_strip c = ''faiss''" "faiss_load_local lib True d = Inl TypeError"
      "faiss_load_local lib False d = Inr ix"
    then show "load_store lib d = (d, Inr (Store FAISS ix))" by (simp add: defs) }
  { fix e assume "py_strip c = ''faiss''" "faiss_load_local lib True d = Inl TypeError"
      "faiss_load_local lib False d = Inl e"
    then show "load_store lib d = (d, Inl e)" by (simp add: defs) }
  { fix d1 ix assume "py_strip c = ''chroma''" "chroma_open lib d = (d1, Inr ix)"
    then show "load_store lib d = (d1, Inr (Store Chroma ix))" by (simp add: defs) }
  { fix d1 e assume "py_strip c = ''chroma''" "chroma_open lib d = (d1, Inl e)"
    then show "load_store lib d = (d1, Inl e)" by (simp add: defs) }
  { assume "py_strip c = ''docarray''" "d ''docs.json'' = None"
    then show "load_store lib d = (d, Inl FileNotFoundError)" by (simp add: defs) }
  { fix j e assume "py_strip c = ''docarray''" "d ''docs.json'' = Some j \<and> json_load lib j = Inl e"
    then show "load_store lib d = (d, Inl e)" by (simp add: defs) }
  { fix j raw e assume "py_strip c = ''docarray''"
      "d ''docs.json'' = Some j \<and> json_load lib j = Inr raw \<and>
       docarray_from_documents lib
         (map (\<lambda>r. \<lparr>page_content = raw_page_content r, metadata = raw_metadata r\<rparr>) raw) = Inl e"
    then show "load_store lib d = (d, Inl e)" by (simp add: defs) }
  { fix j raw ix assume "py_strip c = ''docarray''"
      "d ''docs.json'' = Some j \<and> json_load lib j = Inr raw \<and>
       docarray_from_documents lib
         (map (\<lambda>r. \<lparr>page_content = raw_page_content r, metadata = raw_metadata r\<rparr>) raw) = Inr ix"
    then show "load_store lib d = (d, Inr (Store DocArray ix))" by (simp add: defs) }
qed

lemma strip_tags:
  "py_strip ''faiss'' = ''faiss''" "py_strip ''chroma'' = ''chroma''" "py_strip ''docarray'' = ''docarray''"
  by (simp_all add: py_strip_def py_isspace_def)

lemma example_no_payload_files:
  "example_dir_no_payload ''store_type.txt'' = Some ''docarray''"
  "example_dir_no_payload ''docs.json'' = None"
  by (simp_all add: example_dir_no_payload_def write_store_type_def)

lemma example_chroma_marker_files:
  "example_dir_chroma_marker ''store_type.txt'' = Some ''chroma''"
  "example_dir_chroma_marker ''chroma.sqlite3'' = None"
  by (simp_all add: example_dir_chroma_marker_def write_store_type_def)

lemma example_dir_files:
  "example_dir ''store_type.txt'' = Some ''docarray''"
  "example_dir ''docs.json'' = Some ''a.pdf-p1-c0:first;''"
  by (simp_all add: example_dir_eq)

lemma example_load_dir:
  "load_store example_libraries example_dir = (example_dir, Inr (Store DocArray example_docs_a))"
  by (simp add: load_store_def read_store_type_def example_dir_files strip_tags docarray_rebuild_def
      as_store_def example_libraries_def example_load_known doc_of_raw_of_comp)

lemma example_load_no_payload:
  "load_store example_libraries example_dir_no_payload = (example_dir_no_payload, Inl FileNotFoundError)"
  by (simp add: load_store_def read_store_type_def example_no_payload_files strip_tags
      docarray_rebuild_def as_store_def)

lemma example_load_chroma_marker:
  "snd (load_store example_chroma_libraries example_dir_chroma_marker) = Inr (Store Chroma [])"
  by (simp add: load_store_def read_store_type_def example_chroma_marker_files strip_tags
      as_store_def example_chroma_libraries_def example_collection_def)

text \<open>
  Claim C4 as stated fails twice. For a directory with the marker \<open>docarray\<close> and no
  \<^verbatim>\<open>docs.json\<close> the load fails with \<^verbatim>\<open>FileNotFoundError\<close>, not with \<open>StoreCorrupted\<close>. For a
  directory with the marker \<open>chroma\<close> and no payload, with a Chroma that creates the
  collection it does not find, the load returns a store over an empty collection.
\<close>

theorem load_missing_payload_counterexample:
  "example_dir_no_payload ''store_type.txt'' = Some ''docarray'' \<and>
   example_dir_no_payload ''docs.json'' = None \<and>
   snd (load_store example_libraries example_dir_no_payload) = Inl FileNotFoundError \<and>
   snd (load_store example_libraries example_dir_no_payload) \<noteq> Inl StoreCorrupted \<and>
   example_dir_chroma_marker ''store_type.txt'' = Some ''chroma'' \<and>
   example_dir_chroma_marker ''chroma.sqlite3'' = None \<and>
   snd (load_store example_chroma_libraries example_dir_chroma_marker) = Inr (Store Chroma [])"
  by (simp add: example_no_payload_files example_chroma_marker_files example_load_no_payload
      example_load_chroma_marker)

text \<open>
  C4 as amended, on the directory with the marker \<open>docarray\<close> alone, on the one a fallback
  build left, on a directory with the marker \<open>chroma\<close> alone where Chroma cannot be
  imported, and on the directory a FAISS build left.
\<close>

theorem load_dispatches_on_marker_witness:
  "example_dir_no_payload ''store_type.txt'' = Some ''docarray'' \<and>
   py_strip ''docarray'' = ''docarray'' \<and>
   example_dir_no_payload ''docs.json'' = None \<and>
   load_store example_libraries example_dir_no_payload = (example_dir_no_payload, Inl FileNotFoundError) \<and>
   example_dir ''docs.json'' = Some ''a.pdf-p1-c0:first;'' \<and>
   json_load example_libraries ''a.pdf-p1-c0:first;'' = Inr (map raw_of example_docs_a) \<and>
   load_store example_libraries example_dir = (example_dir, Inr (Store DocArray example_docs_a)) \<and>
   example_dir_chroma_marker ''store_type.txt'' = Some ''chroma'' \<and>
   py_strip ''chroma'' = ''chroma'' \<and>
   load_store example_libraries example_dir_chroma_marker =
     (example_dir_chroma_marker, Inl (LibraryError ''ImportError'')) \<and>
   out_dir example_rebuild ''store_type.txt'' = Some ''faiss'' \<and>
   py_strip ''faiss'' = ''faiss'' \<and>
   load_store example_libraries (out_dir example_rebuild) =
     (out_dir example_rebuild, Inr (Store FAISS example_docs_b))"
proof -
  have jl: "json_load example_libraries ''a.pdf-p1-c0:first;'' = Inr (map raw_of example_docs_a)"
    by (simp add: example_libraries_def example_load_known)
  have da: "docarray_from_documents example_libraries
      (map (\<lambda>r. \<lparr>page_content = raw_page_content r, metadata = raw_metadata r\<rparr>) (map raw_of example_docs_a)) =
      Inr example_docs_a"
    using doc_of_raw_of [of example_docs_a] by (simp add: example_libraries_def doc_of_eq)
  have 1: "load_store example_libraries example_dir_no_payload = (example_dir_no_payload, Inl FileNotFoundError)"
    using load_dispatches_on_marker [where d = example_dir_no_payload and c = "''docarray''" and lib = example_libraries]
    by (simp add: strip_tags example_no_payload_files)
  have 2: "load_store example_libraries example_dir = (example_dir, Inr (Store DocArray example_docs_a))"
    using load_dispatches_on_marker [where d = example_dir and c = "''docarray''" and lib = example_libraries] jl da
    by (simp add: strip_tags example_dir_files)
  have co: "chroma_open example_libraries example_dir_chroma_marker =
      (example_dir_chroma_marker, Inl (LibraryError ''ImportError''))"
    by (simp add: example_libraries_def)
  have 3: "load_store example_libraries example_dir_chroma_marker =
     (example_dir_chroma_marker, Inl (LibraryError ''ImportError''))"
    using load_dispatches_on_marker [where d = example_dir_chroma_marker and c = "''chroma''" and lib = example_libraries] co
    by (simp add: strip_tags example_chroma_marker_files)
  have m: "out_dir example_rebuild ''store_type.txt'' = Some ''faiss''"
    by (simp add: example_rebuild_eq)
  have fl: "faiss_load_local example_libraries True (out_dir example_rebuild) = Inr example_docs_b"
    by (simp add: example_libraries_def example_rebuild_eq example_load_known doc_of_raw_of_comp)
  have 4: "load_store example_libraries (out_dir example_rebuild) =
     (out_dir example_rebuild, Inr (Store FAISS example_docs_b))"
    using load_dispatches_on_marker [where d = "out_dir example_rebuild" and c = "''faiss''" and lib = example_libraries] fl m
    by (simp add: strip_tags)
  from 1 2 3 4 jl m show ?thesis
    by (simp add: strip_tags example_no_payload_files example_dir_files example_chroma_marker_files)
qed










section \<open>The chat request and the session history\<close>

lemma get_session_store_path_history:
  "history (snd (get_session_store_path fresh s)) = history s"
  by (simp add: get_session_store_path_def get_session_id_def split: option.splits)

lemma get_session_store_path_dir:
  "stores st (fst (get_session_store_path (fresh_sid env) (sess st))) = session_dir env st"
  by (simp add: get_session_store_path_def get_session_id_def session_dir_def split: option.splits)

lemma result_answer_eq:
  "result_answer result = (case res_answer result of None \<Rightarrow> (case res_result result of None \<Rightarrow> [] | Some x \<Rightarrow> x) | Some a \<Rightarrow> if a = [] then (case res_result result of None \<Rightarrow> [] | Some x \<Rightarrow> x) else a)"
  by (simp add: result_answer_def Let_def)

lemma citation_of_eq:
  "citation_of = (\<lambda>d. \<lparr>cit_source = md_source (metadata d), cit_page = md_page (metadata d)\<rparr>)"
  by (rule ext) (simp add: citation_of_def)

text \<open>The five ways the handler ends.\<close>

lemma chat_stages:
  obtains
    (rejected) code msg where "(py_strip (case q of None \<Rightarrow> [] | Some x \<Rightarrow> x)) = [] \<or> \<not> ready (sess st)"
      "chat env st q = (st, ErrorResponse code msg None)"
  | (load_failed) e st1 where "chat_loaded env st = Inl e"
      "chat env st q = (st1, ErrorResponse 500 ''Failed to load vector store: '' (Some e))"
      "history (sess st1) = history (sess st)"
  | (llm_failed) store e st1 where "chat_loaded env st = Inr store"
      "get_llm (getenv env) (llm_raises env) (llm_model env) = Inl e"
      "chat env st q = (st1, ErrorResponse 500 ''LLM not configured: '' (Some e))"
      "history (sess st1) = history (sess st)"
  | (invoke_failed) store llm e st1 where "chat_loaded env st = Inr store"
      "get_llm (getenv env) (llm_raises env) (llm_model env) = Inr llm"
      "conv_invoke env llm store (top_k_results env) (py_strip (case q of None \<Rightarrow> [] | Some x \<Rightarrow> x))
         (reconstruct (case history (sess st) of None \<Rightarrow> [] | Some h \<Rightarrow> h)) = Inl e"
      "chat env st q = (st1, ErrorResponse 500 ''LLM processing error: '' (Some e))"
      "history (sess st1) = history (sess st)"
  | (answered) store llm result st2 where
      "(py_strip (case q of None \<Rightarrow> [] | Some x \<Rightarrow> x)) \<noteq> []" "ready (sess st)"
      "chat_loaded env st = Inr store"
      "get_llm (getenv env) (llm_raises env) (llm_model env) = Inr llm"
      "conv_invoke env llm store (top_k_results env) (py_strip (case q of None \<Rightarrow> [] | Some x \<Rightarrow> x))
         (reconstruct (case history (sess st) of None \<Rightarrow> [] | Some h \<Rightarrow> h)) = Inr result"
      "chat env st q =
         (st2, ChatResponse (case res_answer result of None \<Rightarrow> (case res_result result of None \<Rightarrow> [] | Some x \<Rightarrow> x) | Some a \<Rightarrow> if a = [] then (case res_result result of None \<Rightarrow> [] | Some x \<Rightarrow> x) else a)
            (map (\<lambda>d. \<lparr>cit_source = md_source (metadata d), cit_page = md_page (metadata d)\<rparr>)
              (case res_source_documents result of None \<Rightarrow> [] | Some ds \<Rightarrow> ds)))"
      "history (sess st2) =
         Some ((case history (sess st) of None \<Rightarrow> [] | Some h \<Rightarrow> h) @
           [\<lparr>role = ''user'', content = (py_strip (case q of None \<Rightarrow> [] | Some x \<Rightarrow> x)), citations = None\<rparr>,
            \<lparr>role = ''assistant'', content = (case res_answer result of None \<Rightarrow> (case res_result result of None \<Rightarrow> [] | Some x \<Rightarrow> x) | Some a \<Rightarrow> if a = [] then (case res_result result of None \<Rightarrow> [] | Some x \<Rightarrow> x) else a),
             citations = Some (map (\<lambda>d. \<lparr>cit_source = md_source (metadata d), cit_page = md_page (metadata d)\<rparr>)
              (case res_source_documents result of None \<Rightarrow> [] | Some ds \<Rightarrow> ds))\<rparr>])"
proof -
  obtain store_path s1 where g: "get_session_store_path (fresh_sid env) (sess st) = (store_path, s1)"
    by (cases "get_session_store_path (fresh_sid env) (sess st)")
  then have h1: "history s1 = history (sess st)"
    using get_session_store_path_history [of "fresh_sid env" "sess st"] by simp
  then have sh: "stored_history s1 = (case history (sess st) of None \<Rightarrow> [] | Some h \<Rightarrow> h)"
    by (simp add: stored_history_def)
  have rq: "request_question q = (py_strip (case q of None \<Rightarrow> [] | Some x \<Rightarrow> x))"
    by (simp add: request_question_def)
  obtain d1 loaded where l: "load_store (libs env) (stores st store_path) = (d1, loaded)"
    by (cases "load_store (libs env) (stores st store_path)")
  have cl: "chat_loaded env st = loaded"
    using g l get_session_store_path_dir [of st env] by (simp add: chat_loaded_def)
  let ?st1 = "st\<lparr>sess := s1, stores := (stores st)(store_path := d1)\<rparr>"
  have hs: "history (sess ?st1) = history (sess st)" using h1 by simp
  show thesis
  proof (cases "request_question q = [] \<or> \<not> ready (sess st)")
    case True
    show thesis
    proof (cases "request_question q = []")
      case True
      then have "chat env st q = (st, ErrorResponse 400 ''Question is required.'' None)"
        by (simp add: chat_def)
      with True rq show thesis by (auto intro: rejected)
    next
      case False
      with True have "chat env st q = (st, ErrorResponse 409 ''Documents are not processed yet.'' None)"
        by (simp add: chat_def)
      with True False show thesis by (auto intro: rejected)
    qed
  next
    case ok: False
    show thesis
    proof (cases loaded)
      case (Inl e)
      with ok g l have "chat env st q = (?st1, ErrorResponse 500 ''Failed to load vector store: '' (Some e))"
        by (simp add: chat_def)
      with cl Inl hs show thesis by (auto intro: load_failed)
    next
      case (Inr store)
      show thesis
      proof (cases "get_llm (getenv env) (llm_raises env) (llm_model env)")
        case e: (Inl e)
        with Inr ok g l have "chat env st q = (?st1, ErrorResponse 500 ''LLM not configured: '' (Some e))"
          by (simp add: chat_def)
        with cl Inr e hs show thesis by (auto intro: llm_failed)
      next
        case m: (Inr llm)
        show thesis
        proof (cases "conv_invoke env llm store (top_k_results env) (py_strip (case q of None \<Rightarrow> [] | Some x \<Rightarrow> x))
         (reconstruct (case history (sess st) of None \<Rightarrow> [] | Some h \<Rightarrow> h))")
          case e: (Inl e)
          with m Inr ok g l sh rq
          have "chat env st q = (?st1, ErrorResponse 500 ''LLM processing error: '' (Some e))"
            by (simp add: chat_def)
          with cl Inr m e hs show thesis by (auto intro: invoke_failed)
        next
          case r: (Inr result)
          let ?cits = "(map (\<lambda>d. \<lparr>cit_source = md_source (metadata d), cit_page = md_page (metadata d)\<rparr>)
              (case res_source_documents result of None \<Rightarrow> [] | Some ds \<Rightarrow> ds))"
          let ?ans = "(case res_answer result of None \<Rightarrow> (case res_result result of None \<Rightarrow> [] | Some x \<Rightarrow> x) | Some a \<Rightarrow> if a = [] then (case res_result result of None \<Rightarrow> [] | Some x \<Rightarrow> x) else a)"
          let ?h = "(case history (sess st) of None \<Rightarrow> [] | Some h \<Rightarrow> h) @
              [\<lparr>role = ''user'', content = (py_strip (case q of None \<Rightarrow> [] | Some x \<Rightarrow> x)), citations = None\<rparr>,
               \<lparr>role = ''assistant'', content = ?ans, citations = Some ?cits\<rparr>]"
          from r m Inr ok g l sh rq
          have c: "chat env st q = (?st1\<lparr>sess := s1\<lparr>history := Some ?h\<rparr>\<rparr>, ChatResponse ?ans ?cits)"
            by (simp add: chat_def Let_def result_answer_eq citation_of_eq)
          have h: "history (sess (?st1\<lparr>sess := s1\<lparr>history := Some ?h\<rparr>\<rparr>)) = Some ?h" by simp
          from ok rq have q1: "(py_strip (case q of None \<Rightarrow> [] | Some x \<Rightarrow> x)) \<noteq> []" and q2: "ready (sess st)" by simp_all
          have cl': "chat_loaded env st = Inr store" using cl Inr by simp
          show thesis by (rule answered [OF q1 q2 cl' m r c h])
        qed
      qed
    qed
  qed
qed

text \<open>
  Claim C7. A \<^verbatim>\<open>/chat\<close> request that is answered leaves as session history the history it
  found, followed by the user entry with the stripped question and then the assistant entry
  with the answer and its citations; every other response leaves the history as it was.
  When loading the store fails, when the model cannot be set up, or when the chain raises,
  the response is not an answer and the history is unchanged. When the question is not
  empty, the session is ready, the store loads, the model is set up and the chain returns,
  the response is the answer with one citation for each source document, in their order,
  and the two entries are appended.
\<close>

theorem chat_history_only_after_answer:
  "(case snd (chat env st q) of
      ChatResponse answer cits \<Rightarrow>
        history (sess (fst (chat env st q))) =
          Some ((case history (sess st) of None \<Rightarrow> [] | Some h \<Rightarrow> h) @
            [\<lparr>role = ''user'', content = (py_strip (case q of None \<Rightarrow> [] | Some x \<Rightarrow> x)), citations = None\<rparr>,
             \<lparr>role = ''assistant'', content = answer, citations = Some cits\<rparr>])
    | ErrorResponse code msg e \<Rightarrow> history (sess (fst (chat env st q))) = history (sess st)
    | UploadResponse files n \<Rightarrow> False) \<and>
   (chat_loaded env st = Inl e1 \<longrightarrow>
      history (sess (fst (chat env st q))) = history (sess st) \<and>
      (\<forall>a c. snd (chat env st q) \<noteq> ChatResponse a c)) \<and>
   (get_llm (getenv env) (llm_raises env) (llm_model env) = Inl e2 \<longrightarrow>
      history (sess (fst (chat env st q))) = history (sess st) \<and>
      (\<forall>a c. snd (chat env st q) \<noteq> ChatResponse a c)) \<and>
   (chat_loaded env st = Inr store \<and> get_llm (getenv env) (llm_raises env) (llm_model env) = Inr llm \<and>
    conv_invoke env llm store (top_k_results env) (py_strip (case q of None \<Rightarrow> [] | Some x \<Rightarrow> x))
         (reconstruct (case history (sess st) of None \<Rightarrow> [] | Some h \<Rightarrow> h)) = Inl e3 \<longrightarrow>
      history (sess (fst (chat env st q))) = history (sess st) \<and>
      (\<forall>a c. snd (chat env st q) \<noteq> ChatResponse a c)) \<and>
   ((py_strip (case q of None \<Rightarrow> [] | Some x \<Rightarrow> x)) \<noteq> [] \<and> ready (sess st) \<and>
    chat_loaded env st = Inr store \<and> get_llm (getenv env) (llm_raises env) (llm_model env) = Inr llm \<and>
    conv_invoke env llm store (top_k_results env) (py_strip (case q of None \<Rightarrow> [] | Some x \<Rightarrow> x))
         (reconstruct (case history (sess st) of None \<Rightarrow> [] | Some h \<Rightarrow> h)) = Inr result \<longrightarrow>
      snd (chat env st q) =
        ChatResponse (case res_answer result of None \<Rightarrow> (case res_result result of None \<Rightarrow> [] | Some x \<Rightarrow> x) | Some a \<Rightarrow> if a = [] then (case res_result result of None \<Rightarrow> [] | Some x \<Rightarrow> x) else a)
          (map (\<lambda>d. \<lparr>cit_source = md_source (metadata d), cit_page = md_page (metadata d)\<rparr>)
              (case res_source_documents result of None \<Rightarrow> [] | Some ds \<Rightarrow> ds)) \<and>
      history (sess (fst (chat env st q))) =
        Some ((case history (sess st) of None \<Rightarrow> [] | Some h \<Rightarrow> h) @
           [\<lparr>role = ''user'', content = (py_strip (case q of None \<Rightarrow> [] | Some x \<Rightarrow> x)), citations = None\<rparr>,
            \<lparr>role = ''assistant'', content = (case res_answer result of None \<Rightarrow> (case res_result result of None \<Rightarrow> [] | Some x \<Rightarrow> x) | Some a \<Rightarrow> if a = [] then (case res_result result of None \<Rightarrow> [] | Some x \<Rightarrow> x) else a),
             citations = Some (map (\<lambda>d. \<lparr>cit_source = md_source (metadata d), cit_page = md_page (metadata d)\<rparr>)
              (case res_source_documents result of None \<Rightarrow> [] | Some ds \<Rightarrow> ds))\<rparr>]))"
  by (rule chat_stages [where env = env and st = st and q = q]) auto

lemma example_request: "py_strip '' C '' = ''C''"
  by code_simp

lemma example_citations:
  "map (\<lambda>d. \<lparr>cit_source = md_source (metadata d), cit_page = md_page (metadata d)\<rparr>) example_docs_a =
     [\<lparr>cit_source = ''a.pdf'', cit_page = 1\<rparr>]"
  by code_simp

lemma example_llm:
  "get_llm example_vars (\<lambda>call. None) ''google/flan-t5-base'' =
     Inr (HuggingFaceHub ''google/flan-t5-base'' ''text2text-generation'' ''token'')"
  by (simp add: get_llm_def getenv_default_def example_vars_def unset_def construct_def)

lemma example_no_llm:
  "get_llm example_no_vars (\<lambda>call. None) ''google/flan-t5-base'' =
     Inl (RuntimeError ''HUGGINGFACEHUB_API_TOKEN is required for HuggingFaceHub LLM.'')"
  by (simp add: get_llm_def getenv_default_def example_no_vars_def unset_def)

lemma example_endpoint_llm:
  "get_llm example_endpoint_vars example_endpoint_raises ''google/flan-t5-base'' =
     Inl (LibraryError ''ValidationError'')"
  by (simp add: get_llm_def getenv_default_def example_endpoint_vars_def unset_def construct_def
      example_endpoint_raises_def)

lemma example_loaded:
  "chat_loaded (example_env vars answer) (example_state example_dir) = Inr (Store DocArray example_docs_a)"
  "chat_loaded (example_env vars answer) (example_state example_dir_no_payload) = Inl FileNotFoundError"
  "chat_loaded ((example_env vars answer)\<lparr>llm_raises := raises\<rparr>) (example_state example_dir) =
     Inr (Store DocArray example_docs_a)"
  by (simp_all add: chat_loaded_def session_dir_def example_env_def example_state_def example_session_def
      example_load_dir example_load_no_payload)

lemma example_fields:
  "sess (example_state d) = example_session"
  "ready example_session"
  "history example_session =
     Some [\<lparr>role = ''user'', content = ''A'', citations = None\<rparr>,
           \<lparr>role = ''assistant'', content = ''B'', citations = Some []\<rparr>]"
  "getenv (example_env vars answer) = vars"
  "llm_raises (example_env vars answer) = (\<lambda>call. None)"
  "llm_model (example_env vars answer) = ''google/flan-t5-base''"
  "conv_invoke (example_env vars answer) = (\<lambda>llm store k question pairs. answer)"
  by (simp_all add: example_state_def example_session_def example_env_def)

text \<open>
  C7 on a ready session with one exchange in its history: a request that is answered, one
  whose store directory lacks \<^verbatim>\<open>docs.json\<close>, one without the model's token in the
  environment, one for which the endpoint class rejects its arguments, and one on which the
  chain raises.
\<close>

theorem chat_history_only_after_answer_witness:
  "snd (chat (example_env example_vars (Inr example_result)) (example_state example_dir) (Some '' C '')) =
     ChatResponse ''D'' [\<lparr>cit_source = ''a.pdf'', cit_page = 1\<rparr>] \<and>
   history (sess (fst (chat (example_env example_vars (Inr example_result)) (example_state example_dir)
      (Some '' C '')))) =
     Some [\<lparr>role = ''user'', content = ''A'', citations = None\<rparr>,
           \<lparr>role = ''assistant'', content = ''B'', citations = Some []\<rparr>,
           \<lparr>role = ''user'', content = ''C'', citations = None\<rparr>,
           \<lparr>role = ''assistant'', content = ''D'',
            citations = Some [\<lparr>cit_source = ''a.pdf'', cit_page = 1\<rparr>]\<rparr>] \<and>
   history (sess (fst (chat (example_env example_vars (Inr example_result))
      (example_state example_dir_no_payload) (Some '' C '')))) =
     Some [\<lparr>role = ''user'', content = ''A'', citations = None\<rparr>,
           \<lparr>role = ''assistant'', content = ''B'', citations = Some []\<rparr>] \<and>
   history (sess (fst (chat (example_env example_no_vars (Inr example_result))
      (example_state example_dir) (Some '' C '')))) =
     Some [\<lparr>role = ''user'', content = ''A'', citations = None\<rparr>,
           \<lparr>role = ''assistant'', content = ''B'', citations = Some []\<rparr>] \<and>
   history (sess (fst (chat ((example_env example_endpoint_vars (Inr example_result))
        \<lparr>llm_raises := example_endpoint_raises\<rparr>)
      (example_state example_dir) (Some '' C '')))) =
     Some [\<lparr>role = ''user'', content = ''A'', citations = None\<rparr>,
           \<lparr>role = ''assistant'', content = ''B'', citations = Some []\<rparr>] \<and>
   history (sess (fst (chat (example_env example_vars (Inl (LibraryError ''timeout'')))
      (example_state example_dir) (Some '' C '')))) =
     Some [\<lparr>role = ''user'', content = ''A'', citations = None\<rparr>,
           \<lparr>role = ''assistant'', content = ''B'', citations = Some []\<rparr>]"
proof -
  let ?ok = "example_env example_vars (Inr example_result)"
  have 1: "snd (chat ?ok (example_state example_dir) (Some '' C '')) =
       ChatResponse ''D'' [\<lparr>cit_source = ''a.pdf'', cit_page = 1\<rparr>] \<and>
     history (sess (fst (chat ?ok (example_state example_dir) (Some '' C '')))) =
       Some [\<lparr>role = ''user'', content = ''A'', citations = None\<rparr>,
             \<lparr>role = ''assistant'', content = ''B'', citations = Some []\<rparr>,
             \<lparr>role = ''user'', content = ''C'', citations = None\<rparr>,
             \<lparr>role = ''assistant'', content = ''D'',
              citations = Some [\<lparr>cit_source = ''a.pdf'', cit_page = 1\<rparr>]\<rparr>]"
    using chat_history_only_after_answer
      [where env = ?ok and st = "example_state example_dir" and q = "Some '' C ''"
         and store = "Store DocArray example_docs_a"
         and llm = "HuggingFaceHub ''google/flan-t5-base'' ''text2text-generation'' ''token''"
         and result = example_result]
      example_loaded(1) [of example_vars "Inr example_result"] example_llm
    by (simp add: example_fields example_request example_citations example_result_def)
  have 2: "history (sess (fst (chat ?ok (example_state example_dir_no_payload) (Some '' C '')))) =
       Some [\<lparr>role = ''user'', content = ''A'', citations = None\<rparr>,
             \<lparr>role = ''assistant'', content = ''B'', citations = Some []\<rparr>]"
    using chat_history_only_after_answer
      [where env = ?ok and st = "example_state example_dir_no_payload" and q = "Some '' C ''"
         and ?e1.0 = FileNotFoundError]
      example_loaded(2) [of example_vars "Inr example_result"]
    by (simp add: example_fields)
  have 3: "history (sess (fst (chat (example_env example_no_vars (Inr example_result))
        (example_state example_dir) (Some '' C '')))) =
       Some [\<lparr>role = ''user'', content = ''A'', citations = None\<rparr>,
             \<lparr>role = ''assistant'', content = ''B'', citations = Some []\<rparr>]"
    using chat_history_only_after_answer
      [where env = "example_env example_no_vars (Inr example_result)" and st = "example_state example_dir"
         and q = "Some '' C ''"
         and ?e2.0 = "RuntimeError ''HUGGINGFACEHUB_API_TOKEN is required for HuggingFaceHub LLM.''"]
      example_no_llm
    by (simp add: example_fields)
  have 4: "history (sess (fst (chat ((example_env example_endpoint_vars (Inr example_result))
          \<lparr>llm_raises := example_endpoint_raises\<rparr>)
        (example_state example_dir) (Some '' C '')))) =
       Some [\<lparr>role = ''user'', content = ''A'', citations = None\<rparr>,
             \<lparr>role = ''assistant'', content = ''B'', citations = Some []\<rparr>]"
    using chat_history_only_after_answer
      [where env = "(example_env example_endpoint_vars (Inr example_result))
          \<lparr>llm_raises := example_endpoint_raises\<rparr>" and st = "example_state example_dir"
         and q = "Some '' C ''" and ?e2.0 = "LibraryError ''ValidationError''"]
      example_endpoint_llm
    by (simp add: example_fields)
  have 5: "history (sess (fst (chat (example_env example_vars (Inl (LibraryError ''timeout'')))
        (example_state example_dir) (Some '' C '')))) =
       Some [\<lparr>role = ''user'', content = ''A'', citations = None\<rparr>,
             \<lparr>role = ''assistant'', content = ''B'', citations = Some []\<rparr>]"
    using chat_history_only_after_answer
      [where env = "example_env example_vars (Inl (LibraryError ''timeout''))"
         and st = "example_state example_dir" and q = "Some '' C ''"
         and store = "Store DocArray example_docs_a"
         and llm = "HuggingFaceHub ''google/flan-t5-base'' ''text2text-generation'' ''token''"
         and ?e3.0 = "LibraryError ''timeout''"]
      example_loaded(1) [of example_vars "Inl (LibraryError ''timeout'')"] example_llm
    by (simp add: example_fields)
  from 1 2 3 4 5 show ?thesis by simp
qed

end
